theory Spec2Isabelle
  imports Complex_Main "HOL-Library.List_Lexorder" "HOL-Library.AList"
begin

section \<open>Voxel Tools: a shallow embedding of add-on\_voxel-tools.py\<close>

text \<open>
  The add-on has three operators. \<open>VOXELTOOLS_OT_Generate.execute\<close> loads two
  \<open>.npy\<close> arrays, reverses their axes, extracts the coordinates of the positive
  mask cells, creates one mesh vertex per coordinate and writes a colour attribute
  read from the value array. \<open>VOXELTOOLS_OT_Smooth.execute\<close> resamples that cloud
  and copies the attribute to the new mesh through a k-d tree.

  Conventions of the embedding. A finite floating-point number is the real it
  denotes. Array cells are reals, so a boolean or integer mask is its numeric
  value; arrays of complex numbers, of not-a-number or of other objects are outside
  the model. The conversions that round are modelled: \<open>float(...)\<close> to a double, the
  single-precision storage of vertex coordinates and of colour attributes. The
  arithmetic on positions (the product with the world matrix, the distances of
  the k-d tree) is exact. A string is the list of the bytes of its UTF-8 encoding.
  Exceptions are values of \<open>pyerr\<close>. What the host application (Blender) does behind
  the calls of the add-on is taken from the record \<open>host\<close>.
\<close>

subsection \<open>Python exceptions\<close>

datatype pyerr = ValueError | IndexError | TypeError | AttributeError | OSError | RuntimeError

subsection \<open>NumPy arrays\<close>

text \<open>
  An array is its shape and its cells, addressed by a list of indices. Only the
  cells inside the shape are ever read.
\<close>

record ndarray =
  shape :: "nat list"
  cell :: "nat list \<Rightarrow> real"

text \<open>
  \<open>np.transpose(a, (2, 1, 0))\<close>: axis \<open>k\<close> of the result is axis \<open>axes[k]\<close> of
  the argument. NumPy raises \<open>ValueError\<close> when the length of \<open>axes\<close> is not the
  rank of the array.
\<close>

definition np_transpose_210 :: "ndarray \<Rightarrow> pyerr + ndarray" where
  "np_transpose_210 a =
     (if length (shape a) \<noteq> 3 then Inl ValueError
      else Inr \<lparr> shape = [shape a ! 2, shape a ! 1, shape a ! 0],
                 cell = (\<lambda>i. cell a [i ! 2, i ! 1, i ! 0]) \<rparr>)"

text \<open>All index tuples of a shape in C (row-major) order, as \<open>np.ndindex\<close> lists them.\<close>

fun ndindex :: "nat list \<Rightarrow> nat list list" where
  "ndindex [] = [[]]"
| "ndindex (d # ds) = concat (map (\<lambda>i. map ((#) i) (ndindex ds)) [0..<d])"

text \<open>
  \<open>np.argwhere(mask > 0)\<close>: the indices of the cells whose comparison with 0 is
  true, one row per cell, in row-major order.
\<close>

definition np_argwhere_gt0 :: "ndarray \<Rightarrow> nat list list" where
  "np_argwhere_gt0 a = filter (\<lambda>i. 0 < cell a i) (ndindex (shape a))"

text \<open>
  One index of \<open>a[x, y, z]\<close> against a dimension of size \<open>n\<close>: NumPy counts a
  negative index from the end and raises \<open>IndexError\<close> outside \<open>-n \<le> i < n\<close>.
\<close>

definition norm_index :: "nat \<Rightarrow> int \<Rightarrow> nat option" where
  "norm_index n i =
     (if 0 \<le> i \<and> i < int n then Some (nat i)
      else if - int n \<le> i \<and> i < 0 then Some (nat (i + int n))
      else None)"

text \<open>\<open>a[x, y, z]\<close> on a three-dimensional array, read as a scalar.\<close>

definition getitem3 :: "ndarray \<Rightarrow> int \<Rightarrow> int \<Rightarrow> int \<Rightarrow> pyerr + real" where
  "getitem3 a x y z =
     (case shape a of
        [d0, d1, d2] \<Rightarrow>
          (case (norm_index d0 x, norm_index d1 y, norm_index d2 z) of
             (Some i, Some j, Some k) \<Rightarrow> Inr (cell a [i, j, k])
           | _ \<Rightarrow> Inl IndexError)
      | _ \<Rightarrow> Inl IndexError)"

subsection \<open>Floating-point numbers\<close>

text \<open>Python 3 \<open>round(v)\<close> on a float: to the nearest integer, a tie to the even one.\<close>

definition py_round :: "real \<Rightarrow> int" where
  "py_round v =
     (let f = \<lfloor>v\<rfloor>; d = v - of_int f
      in if d < 1 / 2 then f
         else if 1 / 2 < d then f + 1
         else if even f then f else f + 1)"

text \<open>The number of binary digits of a natural number, \<open>int.bit_length()\<close>.\<close>

fun bit_length :: "nat \<Rightarrow> nat" where
  "bit_length n = (if n = 0 then 0 else Suc (bit_length (n div 2)))"

text \<open>The power of two with an integer exponent.\<close>

definition pow2 :: "int \<Rightarrow> real" where
  "pow2 k = (if 0 \<le> k then 2 ^ nat k else 1 / 2 ^ nat (- k))"

text \<open>The binary exponent of a positive real \<open>x\<close>: the \<open>e\<close> with \<open>2^e \<le> x < 2^(e+1)\<close>.\<close>

definition ilog2 :: "real \<Rightarrow> int" where
  "ilog2 x =
     (if 1 \<le> x then int (bit_length (nat \<lfloor>x\<rfloor>)) - 1
      else - int (bit_length (nat (\<lceil>1 / x\<rceil> - 1))))"

text \<open>
  Rounding to the binary floating-point format with \<open>p\<close> digits of significand and
  least normal exponent \<open>emin\<close> (below it the numbers are subnormal): to the nearest
  number of the format, a tie to the one with the even significand. The exponent
  is not bounded above here: where the model rounds to single precision, the
  number is either within the range (a grid index) or clamped (a colour channel).
\<close>

definition fl_round :: "nat \<Rightarrow> int \<Rightarrow> real \<Rightarrow> real" where
  "fl_round p emin x =
     (if x = 0 then 0
      else (let e = max (ilog2 \<bar>x\<bar>) emin; u = pow2 (e - (int p - 1))
            in of_int (py_round (x / u)) * u))"

text \<open>\<open>float(v)\<close>: the conversion of a number to a Python float, a double.\<close>

definition py_float :: "real \<Rightarrow> real" where
  "py_float v = fl_round 53 (- 1022) v"

text \<open>The C conversion of a double to single precision.\<close>

definition float32 :: "real \<Rightarrow> real" where
  "float32 v = fl_round 24 (- 126) v"

text \<open>The largest finite single-precision number, \<open>FLT_MAX\<close>.\<close>

definition flt_max :: real where
  "flt_max = 2 ^ 128 - 2 ^ 104"

subsection \<open>Vertices and colours\<close>

type_synonym vec = "real \<times> real \<times> real"
type_synonym color = "real \<times> real \<times> real \<times> real"

text \<open>
  A grid index as a vertex coordinate: \<open>mesh.from_pydata\<close> converts the integer to
  a double and stores it in single precision.
\<close>

definition co32 :: "nat \<Rightarrow> real" where
  "co32 n = float32 (py_float (real n))"

text \<open>
  \<open>tuple(coord)\<close> handed to \<open>mesh.from_pydata\<close>: a row of three indices becomes a
  vertex. The mask is three-dimensional when the rows are made, so a row of another
  length does not occur.
\<close>

fun vert_of :: "nat list \<Rightarrow> vec" where
  "vert_of [x, y, z] = (co32 x, co32 y, co32 z)"
| "vert_of _ = (0, 0, 0)"

subsection \<open>Meshes, objects and the scene\<close>

text \<open>
  The part of Blender's data the operators read and write. A mesh has vertices,
  named colour attributes on the point domain (one colour per vertex) and material
  slots; an object has a mesh, a modifier stack and a world matrix. Node trees of
  node groups and materials are outside the model: a node group is its name, a
  material is its name with the attribute names of its attribute nodes.
\<close>

record mesh =
  vertices :: "vec list"
  color_attributes :: "(string \<times> color list) list"
  mesh_materials :: "string list"

record modifier =
  mod_name :: string
  mod_type :: string
  mod_node_group :: string

text \<open>The first three rows of a 4x4 matrix; \<open>M @ v\<close> extends \<open>v\<close> by 1.\<close>

type_synonym matrix =
  "(real \<times> real \<times> real \<times> real) \<times> (real \<times> real \<times> real \<times> real) \<times> (real \<times> real \<times> real \<times> real)"

definition identity_matrix :: matrix where
  "identity_matrix = ((1, 0, 0, 0), (0, 1, 0, 0), (0, 0, 1, 0))"

fun mat_mul_vec :: "matrix \<Rightarrow> vec \<Rightarrow> vec" where
  "mat_mul_vec ((a, b, c, d), (e, f, g, h), (i, j, k, l)) (x, y, z) =
     (a * x + b * y + c * z + d, e * x + f * y + g * z + h, i * x + j * y + k * z + l)"

record object =
  obj_data :: mesh
  modifiers :: "modifier list"
  matrix_world :: matrix

record scene =
  objects :: "(string \<times> object) list"
  collections :: "(string \<times> string list) list"
  scene_children :: "string list"
  node_groups :: "string list"
  materials :: "(string \<times> string list) list"
  active_object :: "string option"

text \<open>
  What the host does behind the add-on's calls:
  \<^item> path handling and the file system (\<open>bpy.path.abspath\<close>, \<open>os.path.isfile\<close>,
    \<open>np.load\<close>);
  \<^item> the name a new object gets when the requested one is taken;
  \<^item> \<open>color_attributes.new\<close> on the new mesh: the name under which the attribute
    is created, which is not the requested one when that is taken by a built-in
    attribute, or \<open>None\<close> when the host creates no attribute (a name that is too
    long) and returns \<open>None\<close>;
  \<^item> the colour a new colour attribute is filled with, and the range to which the
    channels of a colour property are clamped;
  \<^item> the evaluation of the two geometry-node modifiers by
    \<open>bpy.ops.object.modifier_apply\<close>, which raises an exception when the host
    cannot apply the modifier;
  \<^item> the point the k-d tree returns when several stored points are at the least
    distance from the query.
\<close>

record host =
  abspath :: "string \<Rightarrow> string"
  isfile :: "string \<Rightarrow> bool"
  np_load :: "string \<Rightarrow> pyerr + ndarray"
  unique_name :: "string list \<Rightarrow> string \<Rightarrow> string"
  attribute_new :: "string \<Rightarrow> string option"
  default_color :: color
  color_range :: "real \<times> real"
  apply_instances :: "mesh \<Rightarrow> pyerr + mesh"
  apply_smooth :: "int \<Rightarrow> real \<Rightarrow> mesh \<Rightarrow> pyerr + mesh"
  kd_tie :: "vec \<Rightarrow> (vec \<times> nat) list \<Rightarrow> vec \<times> nat"

record settings =
  lac_path :: string
  mask_path :: string
  attribute_name :: string
  voxel_amount :: int
  voxel_radius :: real

text \<open>
  The result of an operator: \<open>{'FINISHED'}\<close>, \<open>{'CANCELLED'}\<close> after
  \<open>self.report({'ERROR'}, ...)\<close>, or an exception that leaves \<open>execute\<close>. The
  reports, in the order of the source: "Invalid or missing Param .npy path.",
  "Invalid or missing Mask .npy path.", "Attribute Name cannot be empty.",
  "Generation failed: e", "No 'Cloud' object found. Run Generate first.",
  "Attribute '...' not found on Cloud.".
\<close>

datatype report =
  ParamPathInvalid | MaskPathInvalid | AttributeNameEmpty | GenerationFailed pyerr
  | NoCloudObject | AttributeNotFound

datatype outcome = FINISHED | CANCELLED report | RAISED pyerr

subsection \<open>The sampling loop\<close>

text \<open>
  Writing the element \<open>i\<close> of the data of a colour attribute; an index outside the
  data raises \<open>IndexError\<close>.
\<close>

definition write_color :: "color list \<Rightarrow> nat \<Rightarrow> color \<Rightarrow> pyerr + color list" where
  "write_color colors i c = (if i < length colors then Inr (colors[i := c]) else Inl IndexError)"

text \<open>
  A Python float assigned to a channel of a colour attribute: it is converted to
  single precision and clamped to the range of the property.
\<close>

definition channel32 :: "host \<Rightarrow> real \<Rightarrow> real" where
  "channel32 h v = max (fst (color_range h)) (min (snd (color_range h)) (float32 v))"

text \<open>\<open>colors[i].color = (r, g, b, a)\<close> with four Python floats.\<close>

fun set_color :: "host \<Rightarrow> color list \<Rightarrow> nat \<Rightarrow> color \<Rightarrow> pyerr + color list" where
  "set_color h colors i (r, g, b, a) =
     write_color colors i (channel32 h r, channel32 h g, channel32 h b, channel32 h a)"

text \<open>Line 116: \<open>x, y, z = map(lambda v: int(round(v)), vert.co)\<close>.\<close>

fun rounded :: "vec \<Rightarrow> int \<times> int \<times> int" where
  "rounded (vx, vy, vz) = (py_round vx, py_round vy, py_round vz)"

text \<open>Line 117: \<open>0 <= x < dims[0] and 0 <= y < dims[1] and 0 <= z < dims[2]\<close>.\<close>

fun inside :: "nat \<times> nat \<times> nat \<Rightarrow> int \<times> int \<times> int \<Rightarrow> bool" where
  "inside (d0, d1, d2) (x, y, z) =
     (0 \<le> x \<and> x < int d0 \<and> 0 \<le> y \<and> y < int d1 \<and> 0 \<le> z \<and> z < int d2)"

text \<open>
  Lines 115 to 122, the loop over \<open>enumerate(mesh.vertices)\<close>. The state is the
  colour data and the exception that ended the loop, if one did. The \<open>else\<close>
  belongs to the inner \<open>if\<close>: a vertex outside \<open>dims\<close> is skipped and its colour is
  not written.
\<close>

fun sample_loop ::
  "host \<Rightarrow> nat \<times> nat \<times> nat \<Rightarrow> ndarray \<Rightarrow> ndarray \<Rightarrow> nat \<Rightarrow> vec list \<Rightarrow> color list
     \<Rightarrow> color list \<times> pyerr option" where
  "sample_loop h dims msk lac i [] colors = (colors, None)"
| "sample_loop h dims msk lac i (co # vs) colors =
     (case rounded co of (x, y, z) \<Rightarrow>
        if inside dims (x, y, z)
        then
          (case getitem3 msk x y z of
             Inl e \<Rightarrow> (colors, Some e)
           | Inr m \<Rightarrow>
               if 0 < m
               then
                 (case getitem3 lac x y z of
                    Inl e \<Rightarrow> (colors, Some e)
                  | Inr v \<Rightarrow>
                      (let val = py_float v
                       in case set_color h colors i (val, val, val, 1) of
                            Inl e \<Rightarrow> (colors, Some e)
                          | Inr colors' \<Rightarrow> sample_loop h dims msk lac (Suc i) vs colors'))
               else
                 (case set_color h colors i (0, 0, 0, 0) of
                    Inl e \<Rightarrow> (colors, Some e)
                  | Inr colors' \<Rightarrow> sample_loop h dims msk lac (Suc i) vs colors'))
        else sample_loop h dims msk lac (Suc i) vs colors)"

subsection \<open>Strings\<close>

text \<open>
  The whitespace characters of \<open>str.isspace\<close>, each as the bytes of its UTF-8
  encoding: U+0009 to U+000D, U+001C to U+0020, U+0085, U+00A0, U+1680, U+2000
  to U+200A, U+2028, U+2029, U+202F, U+205F and U+3000.
\<close>

definition whitespace :: "nat list list" where
  "whitespace =
     [[9], [10], [11], [12], [13], [28], [29], [30], [31], [32],
      [194, 133], [194, 160], [225, 154, 128],
      [226, 128, 128], [226, 128, 129], [226, 128, 130], [226, 128, 131], [226, 128, 132],
      [226, 128, 133], [226, 128, 134], [226, 128, 135], [226, 128, 136], [226, 128, 137],
      [226, 128, 138], [226, 128, 168], [226, 128, 169], [226, 128, 175], [226, 129, 159],
      [227, 128, 128]]"

text \<open>The number of bytes of the character of \<open>ws\<close> that the string begins with, 0 when there is none.\<close>

definition leading :: "nat list list \<Rightarrow> string \<Rightarrow> nat" where
  "leading ws s =
     (case find (\<lambda>w. map of_char (take (length w) s) = w) ws of
        None \<Rightarrow> 0
      | Some w \<Rightarrow> length w)"

text \<open>
  Removing the characters of \<open>ws\<close> from the front, at most \<open>k\<close> of them; a string has
  no more characters than bytes.
\<close>

fun drop_leading :: "nat list list \<Rightarrow> nat \<Rightarrow> string \<Rightarrow> string" where
  "drop_leading ws 0 s = s"
| "drop_leading ws (Suc k) s =
     (if leading ws s = 0 then s else drop_leading ws k (drop (leading ws s) s))"

text \<open>
  \<open>str.strip()\<close>: whitespace is removed at both ends. At the end of the string the
  encodings are matched backwards.
\<close>

definition strip :: "string \<Rightarrow> string" where
  "strip s =
     (let front = drop_leading whitespace (length s) s;
          back = drop_leading (map rev whitespace) (length front) (rev front)
      in rev back)"

subsection \<open>The Generate operator\<close>

text \<open>Lines 85 to 88: both files are loaded and both arrays transposed with the same axes.\<close>

definition load_volumes :: "host \<Rightarrow> string \<Rightarrow> string \<Rightarrow> pyerr + (ndarray \<times> ndarray)" where
  "load_volumes h lacp maskp =
     (case np_load h lacp of
        Inl e \<Rightarrow> Inl e
      | Inr lac0 \<Rightarrow>
          (case np_transpose_210 lac0 of
             Inl e \<Rightarrow> Inl e
           | Inr lac \<Rightarrow>
               (case np_load h maskp of
                  Inl e \<Rightarrow> Inl e
                | Inr mask0 \<Rightarrow>
                    (case np_transpose_210 mask0 of
                       Inl e \<Rightarrow> Inl e
                     | Inr msk \<Rightarrow> Inr (lac, msk)))))"

text \<open>
  Lines 91 and 104 to 122, the data of the new mesh: the coordinates, one vertex
  for each, a new colour attribute (the mesh is new, so the name is never among
  its colour attributes) and the sampling loop. When the host returns \<open>None\<close> for
  the attribute, \<open>vcol.data\<close> raises \<open>AttributeError\<close>. The mesh is returned with
  the exception, if there was one.
\<close>

definition build_cloud ::
  "host \<Rightarrow> string \<Rightarrow> ndarray \<Rightarrow> ndarray \<Rightarrow> nat \<times> nat \<times> nat \<Rightarrow> mesh \<times> pyerr option" where
  "build_cloud h attr_name lac msk dims =
     (let coords = np_argwhere_gt0 msk;
          verts = map vert_of coords
      in case attribute_new h attr_name of
           None \<Rightarrow>
             (\<lparr> vertices = verts, color_attributes = [], mesh_materials = [] \<rparr>,
              Some AttributeError)
         | Some name \<Rightarrow>
             (let colors0 = replicate (length verts) (default_color h);
                  (colors, err) = sample_loop h dims msk lac 0 verts colors0
              in (\<lparr> vertices = verts, color_attributes = [(name, colors)],
                    mesh_materials = [] \<rparr>, err)))"

text \<open>
  Lines 97 to 102 (and 240 to 245): the collection "Voxel Gen Output" is looked up,
  created and linked to the scene when missing, and the object is linked to it.
\<close>

definition link_output :: "string \<Rightarrow> scene \<Rightarrow> scene" where
  "link_output obj sc =
     (case map_of (collections sc) ''Voxel Gen Output'' of
        None \<Rightarrow>
          sc \<lparr> collections := collections sc @ [(''Voxel Gen Output'', [obj])],
               scene_children := scene_children sc @ [''Voxel Gen Output''] \<rparr>
      | Some objs \<Rightarrow>
          sc \<lparr> collections := AList.update ''Voxel Gen Output'' (objs @ [obj]) (collections sc) \<rparr>)"

text \<open>Lines 124 to 128: the node group is reused or created (its nodes are rebuilt).\<close>

definition ensure_node_group :: "string \<Rightarrow> scene \<Rightarrow> scene" where
  "ensure_node_group ng sc =
     (if ng \<in> set (node_groups sc) then sc else sc \<lparr> node_groups := node_groups sc @ [ng] \<rparr>)"

text \<open>
  Lines 164 to 199: the material "Voxel\_Map". An existing one has the attribute
  name of its first attribute node replaced; a new one has a single attribute node.
\<close>

definition ensure_material :: "string \<Rightarrow> scene \<Rightarrow> scene" where
  "ensure_material attr_name sc =
     (case map_of (materials sc) ''Voxel_Map'' of
        Some attr_nodes \<Rightarrow>
          (case attr_nodes of
             [] \<Rightarrow> sc
           | n # ns \<Rightarrow> sc \<lparr> materials := AList.update ''Voxel_Map'' (attr_name # ns) (materials sc) \<rparr>)
      | None \<Rightarrow> sc \<lparr> materials := materials sc @ [(''Voxel_Map'', [attr_name])] \<rparr>)"

text \<open>
  Lines 84 to 212, the \<open>try\<close> block. An exception of the loading leaves the scene
  as it was. The object is created and linked (lines 93 to 102) before the mesh is
  filled, so an exception of the sampling loop leaves it in the scene.
\<close>

definition generate_try :: "host \<Rightarrow> string \<Rightarrow> string \<Rightarrow> string \<Rightarrow> scene \<Rightarrow> outcome \<times> scene" where
  "generate_try h lacp maskp attr_name sc =
     (case load_volumes h lacp maskp of
        Inl e \<Rightarrow> (CANCELLED (GenerationFailed e), sc)
      | Inr (lac, msk) \<Rightarrow>
          (case shape msk of
             [d0, d1, d2] \<Rightarrow>
               (let name = unique_name h (map fst (objects sc)) ''Cloud'';
                    (me, err) = build_cloud h attr_name lac msk (d0, d1, d2);
                    sc1 = link_output name sc
                in case err of
                     Some e \<Rightarrow>
                       (CANCELLED (GenerationFailed e),
                        sc1 \<lparr> objects := AList.update name
                          \<lparr> obj_data = me, modifiers = [], matrix_world = identity_matrix \<rparr>
                          (objects sc1) \<rparr>)
                   | None \<Rightarrow>
                       (let sc2 = ensure_material attr_name (ensure_node_group ''Voxel_Instances'' sc1);
                            md = \<lparr> mod_name = ''VoxelGeoNodes'', mod_type = ''NODES'',
                                   mod_node_group = ''Voxel_Instances'' \<rparr>
                        in (FINISHED,
                            sc2 \<lparr> objects := AList.update name
                              \<lparr> obj_data = me, modifiers = [md], matrix_world = identity_matrix \<rparr>
                              (objects sc2) \<rparr>)))
           | _ \<Rightarrow> (CANCELLED (GenerationFailed IndexError), sc)))"

text \<open>Lines 62 to 79: the settings are read and checked before anything is created.\<close>

definition generate_execute :: "host \<Rightarrow> settings \<Rightarrow> scene \<Rightarrow> outcome \<times> scene" where
  "generate_execute h s sc =
     (let lacp = (if lac_path s \<noteq> [] then abspath h (lac_path s) else []);
          maskp = (if mask_path s \<noteq> [] then abspath h (mask_path s) else []);
          attr_name = strip (attribute_name s)
      in if lacp = [] \<or> \<not> isfile h lacp then (CANCELLED ParamPathInvalid, sc)
         else if maskp = [] \<or> \<not> isfile h maskp then (CANCELLED MaskPathInvalid, sc)
         else if attr_name = [] then (CANCELLED AttributeNameEmpty, sc)
         else generate_try h lacp maskp attr_name sc)"

subsection \<open>The k-d tree of mathutils\<close>

text \<open>
  \<open>mathutils.kdtree.KDTree\<close> as the operator uses it. \<open>KDTree(size)\<close> has room for
  \<open>size\<close> points, \<open>insert\<close> raises \<open>RuntimeError\<close> beyond it, \<open>find\<close> raises
  \<open>RuntimeError\<close> when points were inserted after the last \<open>balance\<close>, and returns
  \<open>(None, None, None)\<close> on a tree without points. The tree's layout is not modelled:
  \<open>find\<close> is specified as a stored point at the least Euclidean distance, and
  which of several such points it is, is the host's choice. The result is the
  point and its index; the third component of the tuple, the distance, is not
  used by the operator and is left out.
\<close>

record kdtree =
  kd_maxsize :: nat
  kd_items :: "(vec \<times> nat) list"
  kd_count_balance :: nat

definition kd_new :: "nat \<Rightarrow> kdtree" where
  "kd_new n = \<lparr> kd_maxsize = n, kd_items = [], kd_count_balance = 0 \<rparr>"

definition kd_insert :: "kdtree \<Rightarrow> vec \<Rightarrow> nat \<Rightarrow> pyerr + kdtree" where
  "kd_insert kd co i =
     (if kd_maxsize kd \<le> length (kd_items kd) then Inl RuntimeError
      else Inr (kd \<lparr> kd_items := kd_items kd @ [(co, i)] \<rparr>))"

definition kd_balance :: "kdtree \<Rightarrow> kdtree" where
  "kd_balance kd = kd \<lparr> kd_count_balance := length (kd_items kd) \<rparr>"

fun dist2 :: "vec \<Rightarrow> vec \<Rightarrow> real" where
  "dist2 (x, y, z) (a, b, c) = (x - a)\<^sup>2 + (y - b)\<^sup>2 + (z - c)\<^sup>2"

definition nearest :: "host \<Rightarrow> vec \<Rightarrow> (vec \<times> nat) list \<Rightarrow> (vec \<times> nat) option" where
  "nearest h q ps =
     (let cands = filter (\<lambda>p. \<forall>p' \<in> set ps. dist2 q (fst p) \<le> dist2 q (fst p')) ps
      in if cands = [] then None
         else if kd_tie h q cands \<in> set cands then Some (kd_tie h q cands)
         else Some (hd cands))"

definition kd_find :: "host \<Rightarrow> kdtree \<Rightarrow> vec \<Rightarrow> pyerr + (vec \<times> nat) option" where
  "kd_find h kd co =
     (if length (kd_items kd) \<noteq> kd_count_balance kd then Inl RuntimeError
      else Inr (nearest h co (kd_items kd)))"

subsection \<open>The Smooth operator\<close>

text \<open>Lines 230 to 232: \<open>bpy.data.objects.remove(old_smooth, do_unlink=True)\<close>.\<close>

definition remove_object :: "string \<Rightarrow> scene \<Rightarrow> scene" where
  "remove_object name sc =
     sc \<lparr> objects := AList.delete name (objects sc),
          collections := map (\<lambda>(c, objs). (c, removeAll name objs)) (collections sc),
          active_object := (if active_object sc = Some name then None else active_object sc) \<rparr>"

text \<open>Lines 320 to 323: every vertex of the source is inserted at its world position, tagged with its index.\<close>

fun kd_insert_all :: "kdtree \<Rightarrow> matrix \<Rightarrow> nat \<Rightarrow> vec list \<Rightarrow> pyerr + kdtree" where
  "kd_insert_all kd mw i [] = Inr kd"
| "kd_insert_all kd mw i (co # vs) =
     (case kd_insert kd (mat_mul_vec mw co) i of
        Inl e \<Rightarrow> Inl e
      | Inr kd' \<Rightarrow> kd_insert_all kd' mw (Suc i) vs)"

text \<open>Lines 320 to 324: the tree is sized for the source, filled and balanced.\<close>

definition kd_build :: "matrix \<Rightarrow> vec list \<Rightarrow> pyerr + kdtree" where
  "kd_build mw vs =
     (case kd_insert_all (kd_new (length vs)) mw 0 vs of
        Inl e \<Rightarrow> Inl e
      | Inr kd \<Rightarrow> Inr (kd_balance kd))"

text \<open>
  Lines 333 to 336, the loop over \<open>enumerate(target.vertices)\<close>. On an empty tree
  \<open>nearest_idx\<close> is \<open>None\<close> and \<open>src_colors[None]\<close> raises \<open>TypeError\<close>. The colour
  assigned was read from a colour attribute: its channels are stored as they are.
\<close>

fun transfer_loop ::
  "host \<Rightarrow> kdtree \<Rightarrow> matrix \<Rightarrow> color list \<Rightarrow> nat \<Rightarrow> vec list \<Rightarrow> color list
     \<Rightarrow> color list \<times> pyerr option" where
  "transfer_loop h kd mw src_colors i [] tar = (tar, None)"
| "transfer_loop h kd mw src_colors i (co # vs) tar =
     (case kd_find h kd (mat_mul_vec mw co) of
        Inl e \<Rightarrow> (tar, Some e)
      | Inr None \<Rightarrow> (tar, Some TypeError)
      | Inr (Some (p, nearest_idx)) \<Rightarrow>
          if nearest_idx < length src_colors
          then
            (case write_color tar i (src_colors ! nearest_idx) of
               Inl e \<Rightarrow> (tar, Some e)
             | Inr tar' \<Rightarrow> transfer_loop h kd mw src_colors (Suc i) vs tar')
          else (tar, Some IndexError))"

text \<open>
  Lines 316 to 338, the transfer from the mesh of the cloud to the target mesh:
  the tree is built and balanced, the target attribute is created when missing,
  the source colours are copied into a list (\<open>src_attr.data[i]\<close> for every source
  vertex) and the loop runs. The name is that of a colour attribute of the source
  (line 312), so the host creates the target attribute under it. The target mesh
  is returned as the exception, if any, leaves it.
\<close>

definition transfer_attribute ::
  "host \<Rightarrow> string \<Rightarrow> object \<Rightarrow> color list \<Rightarrow> matrix \<Rightarrow> mesh \<Rightarrow> mesh \<times> pyerr option" where
  "transfer_attribute h attr_name cloud_obj src_data mw target =
     (let source = obj_data cloud_obj
      in case kd_build (matrix_world cloud_obj) (vertices source) of
           Inl e \<Rightarrow> (target, Some e)
         | Inr kd \<Rightarrow>
             (let (tar_data, target1) =
                    (case map_of (color_attributes target) attr_name of
                       None \<Rightarrow>
                         (let fresh = replicate (length (vertices target)) (default_color h)
                          in (fresh, target \<lparr> color_attributes :=
                                color_attributes target @ [(attr_name, fresh)] \<rparr>))
                     | Some d \<Rightarrow> (d, target))
              in if length src_data < length (vertices source) then (target1, Some IndexError)
                 else
                   (let src_colors = take (length (vertices source)) src_data;
                        (tar', err) = transfer_loop h kd mw src_colors 0 (vertices target1) tar_data
                    in (target1 \<lparr> color_attributes :=
                          AList.update attr_name tar' (color_attributes target1) \<rparr>, err))))"

text \<open>
  Lines 257 to 306: the node group "Voxel\_Smooth" is reused or created, the
  smoothing modifier is added to the object, which has no other modifier left,
  and applied. When the host cannot apply it, the exception leaves the object
  with the modifier.
\<close>

definition apply_smoothing ::
  "host \<Rightarrow> settings \<Rightarrow> matrix \<Rightarrow> mesh \<Rightarrow> scene \<Rightarrow> pyerr option \<times> object \<times> scene" where
  "apply_smoothing h s mw me sc =
     (let sc1 = ensure_node_group ''Voxel_Smooth'' sc;
          md = \<lparr> mod_name = ''SmoothGeoNodes'', mod_type = ''NODES'',
                 mod_node_group = ''Voxel_Smooth'' \<rparr>
      in case apply_smooth h (voxel_amount s) (voxel_radius s) me of
           Inl e \<Rightarrow>
             (let ob = \<lparr> obj_data = me, modifiers = [md], matrix_world = mw \<rparr>
              in (Some e, ob,
                  sc1 \<lparr> objects := AList.update ''Smooth'' ob (objects sc1),
                        active_object := Some ''Smooth'' \<rparr>))
         | Inr me' \<Rightarrow>
             (let ob = \<lparr> obj_data = me', modifiers = [], matrix_world = mw \<rparr>
              in (None, ob,
                  sc1 \<lparr> objects := AList.update ''Smooth'' ob (objects sc1),
                        active_object := Some ''Smooth'' \<rparr>)))"

text \<open>
  Lines 229 to 306: the old "Smooth" object is removed, the cloud is copied under
  that name and linked, its instancing modifier is applied, when it has one, and
  the other modifiers are removed; then the smoothing is applied. When the host
  cannot apply the instancing modifier, the exception leaves the copy as it was
  made. The result is the exception, if any, the new object and the scene.
\<close>

definition make_smooth_object ::
  "host \<Rightarrow> settings \<Rightarrow> object \<Rightarrow> scene \<Rightarrow> pyerr option \<times> object \<times> scene" where
  "make_smooth_object h s cloud_obj sc =
     (let sc1 = link_output ''Smooth'' (remove_object ''Smooth'' sc)
      in if \<exists>m \<in> set (modifiers cloud_obj).
              mod_type m = ''NODES'' \<and> mod_name m = ''VoxelGeoNodes''
         then
           (case apply_instances h (obj_data cloud_obj) of
              Inl e \<Rightarrow>
                (Some e, cloud_obj,
                 sc1 \<lparr> objects := AList.update ''Smooth'' cloud_obj (objects sc1),
                       active_object := Some ''Smooth'' \<rparr>)
            | Inr me \<Rightarrow> apply_smoothing h s (matrix_world cloud_obj) me sc1)
         else apply_smoothing h s (matrix_world cloud_obj) (obj_data cloud_obj) sc1)"

text \<open>
  \<open>VOXELTOOLS_OT_Smooth.execute\<close>. The check of line 225 comes before any change;
  the check of line 312 comes after the new object has replaced the old one. The
  operator has no \<open>try\<close>: an exception of a modifier or of the transfer leaves
  \<open>execute\<close>.
\<close>

definition smooth_execute :: "host \<Rightarrow> settings \<Rightarrow> scene \<Rightarrow> outcome \<times> scene" where
  "smooth_execute h s sc =
     (let attr_name = strip (attribute_name s)
      in case map_of (objects sc) ''Cloud'' of
           None \<Rightarrow> (CANCELLED NoCloudObject, sc)
         | Some cloud_obj \<Rightarrow>
             (case make_smooth_object h s cloud_obj sc of
                (Some e, smooth_obj, sc1) \<Rightarrow> (RAISED e, sc1)
              | (None, smooth_obj, sc1) \<Rightarrow>
                  (case map_of (color_attributes (obj_data cloud_obj)) attr_name of
                     None \<Rightarrow> (CANCELLED AttributeNotFound, sc1)
                   | Some src_data \<Rightarrow>
                       (let (target, err) =
                              transfer_attribute h attr_name cloud_obj src_data
                                (matrix_world smooth_obj) (obj_data smooth_obj)
                        in case err of
                             Some e \<Rightarrow>
                               (RAISED e,
                                sc1 \<lparr> objects := AList.update ''Smooth''
                                  (smooth_obj \<lparr> obj_data := target \<rparr>) (objects sc1) \<rparr>)
                           | None \<Rightarrow>
                               (let mats = (case map_of (materials sc1) ''Voxel_Map'' of
                                              None \<Rightarrow> [] | Some n \<Rightarrow> [''Voxel_Map''])
                                in (FINISHED,
                                    sc1 \<lparr> objects := AList.update ''Smooth''
                                      (smooth_obj \<lparr> obj_data := target \<lparr> mesh_materials := mats \<rparr> \<rparr>)
                                      (objects sc1) \<rparr>))))))"

subsection \<open>Auxiliary notions for the statements\<close>

text \<open>A triple of non-negative integers as an index tuple, and the cell \<open>a[x, y, z]\<close> there.\<close>

definition grid_index :: "int \<times> int \<times> int \<Rightarrow> nat list" where
  "grid_index p = (case p of (x, y, z) \<Rightarrow> [nat x, nat y, nat z])"

definition cell_at :: "ndarray \<Rightarrow> int \<times> int \<times> int \<Rightarrow> real" where
  "cell_at a p = cell a (grid_index p)"

text \<open>
  The colour that line 120 stores for the coordinate \<open>c\<close>: the scalar of the value
  volume as a Python float, assigned to the first three channels, and 1.0 assigned
  to the fourth.
\<close>

definition sampled_color :: "host \<Rightarrow> ndarray \<Rightarrow> nat list \<Rightarrow> color" where
  "sampled_color h lac c =
     (channel32 h (py_float (cell lac c)), channel32 h (py_float (cell lac c)),
      channel32 h (py_float (cell lac c)), channel32 h 1)"

text \<open>An index tuple lies inside an array.\<close>

definition in_bounds :: "ndarray \<Rightarrow> nat list \<Rightarrow> bool" where
  "in_bounds a i = list_all2 (<) i (shape a)"

text \<open>
  The colour of one vertex after the body of the loop (lines 116 to 122) has run
  without an exception, from its colour before.
\<close>

definition point_color ::
  "host \<Rightarrow> nat \<times> nat \<times> nat \<Rightarrow> ndarray \<Rightarrow> ndarray \<Rightarrow> vec \<Rightarrow> color \<Rightarrow> color" where
  "point_color h dims msk lac co old =
     (if inside dims (rounded co)
      then (if 0 < cell_at msk (rounded co)
            then sampled_color h lac (grid_index (rounded co))
            else (channel32 h 0, channel32 h 0, channel32 h 0, channel32 h 0))
      else old)"


text \<open>A path setting that passes the checks of lines 65 to 75.\<close>

definition valid_path :: "host \<Rightarrow> string \<Rightarrow> bool" where
  "valid_path h p = (p \<noteq> [] \<and> abspath h p \<noteq> [] \<and> isfile h (abspath h p))"

text \<open>
  The object a run of Generate created: the name the host gave to the new "Cloud",
  looked up in the scene after the run.
\<close>

definition created_cloud :: "host \<Rightarrow> scene \<Rightarrow> scene \<Rightarrow> object option" where
  "created_cloud h sc sc' = map_of (objects sc') (unique_name h (map fst (objects sc)) ''Cloud'')"

subsection \<open>Concrete inputs\<close>

text \<open>
  The scenario of the specification: a 2x2x2 mask occupied at (0,0,0) and (1,1,1),
  a value volume that is 5.0 everywhere, and a 3x3x3 value volume.
\<close>

definition scenario_mask :: ndarray where
  "scenario_mask =
     \<lparr> shape = [2, 2, 2], cell = (\<lambda>i. if i = [0, 0, 0] \<or> i = [1, 1, 1] then 1 else 0) \<rparr>"

definition scenario_values :: ndarray where
  "scenario_values = \<lparr> shape = [2, 2, 2], cell = (\<lambda>i. 5) \<rparr>"

definition scenario_values_3x3x3 :: ndarray where
  "scenario_values_3x3x3 = \<lparr> shape = [3, 3, 3], cell = (\<lambda>i. 5) \<rparr>"

definition scenario_values_1x1x1 :: ndarray where
  "scenario_values_1x1x1 = \<lparr> shape = [1, 1, 1], cell = (\<lambda>i. 5) \<rparr>"

text \<open>A stored array of shape (2, 3, 4) whose cell at \<open>[a, b, c]\<close> holds \<open>100 a + 10 b + c\<close>.\<close>

definition stored_234 :: ndarray where
  "stored_234 = \<lparr> shape = [2, 3, 4], cell = (\<lambda>i. real (100 * i ! 0 + 10 * i ! 1 + i ! 2)) \<rparr>"

text \<open>A value volume that is 16777217.0 everywhere, a double that is no single-precision number.\<close>

definition scenario_values_16777217 :: ndarray where
  "scenario_values_16777217 = \<lparr> shape = [2, 2, 2], cell = (\<lambda>i. 16777217) \<rparr>"

text \<open>
  Two long masks as they are stored, of shape (1, 1, n): one of length 16777218
  occupied at its last cell, index 16777217, and one of length 16777220 occupied
  at its last cell, index 16777219; and value volumes of these shapes that are 5.0
  everywhere.
\<close>

definition long_mask :: "nat \<Rightarrow> ndarray" where
  "long_mask n = \<lparr> shape = [1, 1, n], cell = (\<lambda>i. if i = [0, 0, n - 1] then 1 else 0) \<rparr>"

definition long_values :: "nat \<Rightarrow> ndarray" where
  "long_values n = \<lparr> shape = [1, 1, n], cell = (\<lambda>i. 5) \<rparr>"

text \<open>
  A host with these files. A new colour attribute is white and its channels range
  from 0 to \<open>FLT_MAX\<close>; an attribute gets the requested name unless that has 68
  bytes or more (no attribute) or is "position" (the suffix ".001" is added); a
  taken object name gets the suffix ".001"; the instancing modifier leaves the
  mesh as it is and the smoothing modifier yields the two vertices (1,0,0) and
  (9,0,0); of several nearest points the tree returns the last.
\<close>

definition demo_host :: host where
  "demo_host =
     \<lparr> abspath = (\<lambda>p. p),
       isfile = (\<lambda>p. p \<in> {''lac.npy'', ''mask.npy'', ''lac3.npy'', ''lac1.npy'', ''stored.npy'',
                            ''lac_double.npy'', ''mask_a.npy'', ''lac_a.npy'', ''mask_b.npy'',
                            ''lac_b.npy''}),
       np_load = (\<lambda>p. if p = ''lac.npy'' then Inr scenario_values
                       else if p = ''mask.npy'' then Inr scenario_mask
                       else if p = ''lac3.npy'' then Inr scenario_values_3x3x3
                       else if p = ''lac1.npy'' then Inr scenario_values_1x1x1
                       else if p = ''stored.npy'' then Inr stored_234
                       else if p = ''lac_double.npy'' then Inr scenario_values_16777217
                       else if p = ''mask_a.npy'' then Inr (long_mask 16777218)
                       else if p = ''lac_a.npy'' then Inr (long_values 16777218)
                       else if p = ''mask_b.npy'' then Inr (long_mask 16777220)
                       else if p = ''lac_b.npy'' then Inr (long_values 16777220)
                       else Inl OSError),
       unique_name = (\<lambda>used base. if base \<in> set used then base @ ''.001'' else base),
       attribute_new = (\<lambda>name. if 68 \<le> length name then None
                               else if name = ''position'' then Some ''position.001''
                               else Some name),
       default_color = (1, 1, 1, 1),
       color_range = (0, flt_max),
       apply_instances = (\<lambda>me. Inr me),
       apply_smooth = (\<lambda>amount radius me.
          Inr \<lparr> vertices = [(1, 0, 0), (9, 0, 0)], color_attributes = [], mesh_materials = [] \<rparr>),
       kd_tie = (\<lambda>q cands. last cands) \<rparr>"

text \<open>
  The transfer scenario of the specification: a source cloud with the points
  (0,0,0) and (10,0,0), coloured (1,0,0,1) and (0,1,0,1), and a target mesh with
  the points (1,0,0) and (9,0,0).
\<close>

definition scenario_cloud :: object where
  "scenario_cloud =
     \<lparr> obj_data = \<lparr> vertices = [(0, 0, 0), (10, 0, 0)],
                      color_attributes = [(''lac_ves'', [(1, 0, 0, 1), (0, 1, 0, 1)])],
                      mesh_materials = [] \<rparr>,
       modifiers = [], matrix_world = identity_matrix \<rparr>"

definition scenario_target :: mesh where
  "scenario_target =
     \<lparr> vertices = [(1, 0, 0), (9, 0, 0)], color_attributes = [], mesh_materials = [] \<rparr>"

definition demo_settings :: settings where
  "demo_settings =
     \<lparr> lac_path = ''lac.npy'', mask_path = ''mask.npy'', attribute_name = ''lac_ves'',
       voxel_amount = 512, voxel_radius = 1 \<rparr>"

definition empty_scene :: scene where
  "empty_scene =
     \<lparr> objects = [], collections = [], scene_children = [], node_groups = [], materials = [],
       active_object = None \<rparr>"

text \<open>The scene after Generate and Smooth have run once on the empty scene.\<close>

definition smoothed_scene :: scene where
  "smoothed_scene =
     snd (smooth_execute demo_host demo_settings
            (snd (generate_execute demo_host demo_settings empty_scene)))"

section \<open>Auxiliary lemmas\<close>

declare bit_length.simps [simp del]

subsection \<open>Extraction\<close>

lemma set_ndindex:
  "set (ndindex ds) = {i. length i = length ds \<and> (\<forall>k<length ds. i ! k < ds ! k)}"
proof (induction ds)
  case Nil
  then show ?case by auto
next
  case (Cons d ds)
  show ?case
  proof (rule set_eqI)
    fix i :: "nat list"
    show "i \<in> set (ndindex (d # ds)) \<longleftrightarrow>
          i \<in> {i. length i = length (d # ds) \<and> (\<forall>k<length (d # ds). i ! k < (d # ds) ! k)}"
    proof (cases i)
      case Nil
      then show ?thesis by auto
    next
      case (Cons x xs)
      have "(\<forall>k<Suc (length ds). (x # xs) ! k < (d # ds) ! k) \<longleftrightarrow>
            x < d \<and> (\<forall>k<length ds. xs ! k < ds ! k)"
        by (auto simp: nth_Cons split: nat.splits)
      with Cons Cons.IH show ?thesis by auto
    qed
  qed
qed

lemma sorted_rows:
  "sorted_wrt (<) xs \<Longrightarrow> sorted_wrt (<) (concat (map (\<lambda>i. map ((#) i) xs) [0..<d]))"
proof (induction d)
  case 0
  then show ?case by simp
next
  case (Suc d)
  then show ?case
    by (auto simp: sorted_wrt_append sorted_wrt_map)
qed

lemma sorted_ndindex: "sorted_wrt (<) (ndindex ds)"
  by (induction ds) (simp_all add: sorted_rows)

lemma argwhere_general:
  "set (np_argwhere_gt0 M) =
     {i. length i = length (shape M) \<and> (\<forall>k<length (shape M). i ! k < shape M ! k) \<and> 0 < cell M i}"
  "sorted_wrt (<) (np_argwhere_gt0 M)"
  "distinct (np_argwhere_gt0 M)"
proof -
  show "set (np_argwhere_gt0 M) =
     {i. length i = length (shape M) \<and> (\<forall>k<length (shape M). i ! k < shape M ! k) \<and> 0 < cell M i}"
    by (auto simp: np_argwhere_gt0_def set_ndindex)
  show s: "sorted_wrt (<) (np_argwhere_gt0 M)"
    unfolding np_argwhere_gt0_def by (rule sorted_wrt_filter) (rule sorted_ndindex)
  from s show "distinct (np_argwhere_gt0 M)"
    by (simp add: strict_sorted_iff)
qed

lemma len3: "length i = 3 \<longleftrightarrow> (\<exists>x y z. i = [x, y, z])"
  by (auto simp: length_Suc_conv numeral_3_eq_3)

lemma all_lt3: "(\<forall>k<3. P (k::nat)) \<longleftrightarrow> P 0 \<and> P (Suc 0) \<and> P (Suc (Suc 0))"
  by (auto simp: numeral_3_eq_3 less_Suc_eq)

lemma in_shape3:
  "length i = 3 \<and> (\<forall>k<3. i ! k < [d0, d1, d2] ! k) \<longleftrightarrow>
   (\<exists>x y z. i = [x, y, z] \<and> x < d0 \<and> y < d1 \<and> z < d2)"
  unfolding len3 all_lt3 by auto

lemma argwhere_set3:
  assumes "shape M = [d0, d1, d2]"
  shows "set (np_argwhere_gt0 M) =
           {[x, y, z] | x y z. x < d0 \<and> y < d1 \<and> z < d2 \<and> 0 < cell M [x, y, z]}"
proof -
  have "set (np_argwhere_gt0 M) =
          {i. (length i = 3 \<and> (\<forall>k<3. i ! k < [d0, d1, d2] ! k)) \<and> 0 < cell M i}"
    unfolding argwhere_general(1) assms by (simp add: numeral_3_eq_3)
  also have "\<dots> = {[x, y, z] | x y z. x < d0 \<and> y < d1 \<and> z < d2 \<and> 0 < cell M [x, y, z]}"
    unfolding in_shape3 by blast
  finally show ?thesis .
qed

lemma argwhere_elem:
  assumes "shape msk = [d0, d1, d2]" and "c \<in> set (np_argwhere_gt0 msk)"
  shows "\<exists>x y z. c = [x, y, z] \<and> x < d0 \<and> y < d1 \<and> z < d2 \<and> 0 < cell msk [x, y, z]"
  using assms(2) unfolding argwhere_set3[OF assms(1)] by blast

lemma singleton_list:
  assumes "distinct xs" and "set xs = {c}"
  shows "xs = [c]"
proof (cases xs)
  case Nil
  then show ?thesis using assms(2) by simp
next
  case (Cons a ys)
  then have a: "a = c" using assms(2) by auto
  have "set ys \<subseteq> {c}" using Cons assms(2) by auto
  moreover have "c \<notin> set ys" using Cons a assms(1) by simp
  ultimately have "ys = []" by (cases ys) auto
  then show ?thesis using Cons a by simp
qed

lemma long_argwhere:
  assumes "0 < n"
  shows "np_argwhere_gt0
           \<lparr> shape = [n, 1, 1], cell = (\<lambda>i. cell (long_mask n) [i ! 2, i ! 1, i ! 0]) \<rparr>
         = [[n - 1, 0, 0]]"
proof -
  let ?M = "\<lparr> shape = [n, 1, 1], cell = (\<lambda>i. cell (long_mask n) [i ! 2, i ! 1, i ! 0]) \<rparr>"
  have "shape ?M = [n, 1, 1]" by simp
  from argwhere_set3[OF this]
  have "set (np_argwhere_gt0 ?M) =
          {[x, y, z] | x y z. x < n \<and> y < 1 \<and> z < 1 \<and> 0 < cell ?M [x, y, z]}" .
  also have "\<dots> = {[n - 1, 0, 0]}"
    using assms by (auto simp: long_mask_def)
  finally have "set (np_argwhere_gt0 ?M) = {[n - 1, 0, 0]}" .
  with argwhere_general(3)[of ?M] show ?thesis by (rule singleton_list)
qed

subsection \<open>Floating-point numbers\<close>

lemma bit_length_numeral_eval [simp]:
  "bit_length 0 = 0"
  "bit_length (numeral k) = Suc (bit_length (numeral k div 2))"
  "bit_length (Suc 0) = Suc 0"
  by (simp_all add: bit_length.simps[of 0] bit_length.simps[of "numeral k"]
        bit_length.simps[of "Suc 0"])

lemma bit_length_le: "n < 2 ^ p \<Longrightarrow> bit_length n \<le> p"
proof (induction p arbitrary: n)
  case 0
  then show ?case by (simp add: bit_length.simps)
next
  case (Suc p)
  show ?case
  proof (cases "n = 0")
    case True
    then show ?thesis by (simp add: bit_length.simps)
  next
    case False
    have "n div 2 < 2 ^ p" using Suc.prems by auto
    from Suc.IH[OF this] show ?thesis using False by (subst bit_length.simps) simp
  qed
qed

lemma bit_length_pow2: "bit_length (2 ^ p) = Suc p"
proof (induction p)
  case 0
  then show ?case by (simp add: bit_length.simps)
next
  case (Suc p)
  then show ?case by (subst bit_length.simps) simp
qed

lemma bit_length_pos: "0 < n \<Longrightarrow> 0 < bit_length n"
  by (subst bit_length.simps) simp

lemma py_round_of_int: "py_round (of_int n) = n"
  by (simp add: py_round_def)

lemma py_round_real: "py_round (real n) = int n"
  using py_round_of_int[of "int n"] by simp

lemma pow2_neg: "pow2 (- int d) = 1 / 2 ^ d"
proof (cases "d = 0")
  case True
  then show ?thesis by (simp add: pow2_def)
next
  case False
  then have "\<not> 0 \<le> - int d" by simp
  then show ?thesis unfolding pow2_def by simp
qed

text \<open>A number on the grid of its own exponent is not changed by the rounding.\<close>

lemma fl_round_grid:
  assumes "x \<noteq> 0" and "x = of_int m * pow2 (max (ilog2 \<bar>x\<bar>) emin - (int p - 1))"
  shows "fl_round p emin x = x"
proof -
  let ?u = "pow2 (max (ilog2 \<bar>x\<bar>) emin - (int p - 1))"
  have u: "?u \<noteq> 0" by (simp add: pow2_def)
  have "x / ?u = of_int m" using assms(2) u by (metis nonzero_mult_div_cancel_right)
  then have "of_int (py_round (x / ?u)) * ?u = x"
    using assms(2) by (simp add: py_round_of_int)
  then show ?thesis using assms(1) by (simp add: fl_round_def Let_def)
qed

text \<open>The natural numbers up to \<open>2^p\<close> are numbers of the format with \<open>p\<close> digits.\<close>

lemma fl_round_nat:
  assumes n: "n \<le> 2 ^ p" and emin: "emin \<le> 0" and p: "0 < p"
  shows "fl_round p emin (real n) = real n"
proof (cases "n = 0")
  case True
  then show ?thesis by (simp add: fl_round_def)
next
  case False
  then have pos: "0 < n" by simp
  then have nz: "real n \<noteq> 0" by simp
  have il: "ilog2 \<bar>real n\<bar> = int (bit_length n) - 1"
    using pos by (simp add: ilog2_def)
  have b1: "0 < bit_length n" using bit_length_pos[OF pos] .
  then have e: "max (ilog2 \<bar>real n\<bar>) emin = int (bit_length n) - 1"
    using il emin by simp
  show ?thesis
  proof (cases "n < 2 ^ p")
    case True
    then have bp: "bit_length n \<le> p" by (rule bit_length_le)
    have k: "max (ilog2 \<bar>real n\<bar>) emin - (int p - 1) = - int (p - bit_length n)"
      using e bp by simp
    have "real n = of_int (int n * 2 ^ (p - bit_length n)) * (1 / 2 ^ (p - bit_length n))"
      by simp
    then have "real n = of_int (int n * 2 ^ (p - bit_length n))
                 * pow2 (max (ilog2 \<bar>real n\<bar>) emin - (int p - 1))"
      unfolding k pow2_neg .
    from fl_round_grid[OF nz this] show ?thesis .
  next
    case False
    then have n2: "n = 2 ^ p" using n by simp
    have k: "max (ilog2 \<bar>real n\<bar>) emin - (int p - 1) = 1"
      using e n2 bit_length_pow2[of p] by simp
    obtain q where q: "p = Suc q" using p by (cases p) auto
    have p1: "pow2 1 = 2" by (simp add: pow2_def)
    have "real n = of_int (2 ^ q) * 2"
      using n2 q by simp
    then have "real n = of_int (2 ^ q) * pow2 (max (ilog2 \<bar>real n\<bar>) emin - (int p - 1))"
      unfolding k p1 .
    from fl_round_grid[OF nz this] show ?thesis .
  qed
qed

text \<open>A grid index up to \<open>2^24\<close> is stored exactly as a vertex coordinate.\<close>

lemma co32_exact: "n \<le> 16777216 \<Longrightarrow> co32 n = real n"
proof -
  assume a: "n \<le> 16777216"
  have "n \<le> 2 ^ 53" using a by simp
  then have d: "py_float (real n) = real n"
    unfolding py_float_def by (intro fl_round_nat) simp_all
  have "n \<le> 2 ^ 24" using a by simp
  then have "float32 (real n) = real n"
    unfolding float32_def by (intro fl_round_nat) simp_all
  with d show ?thesis by (simp add: co32_def)
qed

lemma float32_0: "float32 0 = 0"
  by (simp add: float32_def fl_round_def)

lemma float32_1: "float32 1 = 1"
  using fl_round_nat[of 1 24 "- 126"] by (simp add: float32_def)

lemma channel32_0:
  "fst (color_range h) \<le> 0 \<Longrightarrow> 0 \<le> snd (color_range h) \<Longrightarrow> channel32 h 0 = 0"
  by (simp add: channel32_def float32_0)

lemma channel32_1:
  "fst (color_range h) \<le> 1 \<Longrightarrow> 1 \<le> snd (color_range h) \<Longrightarrow> channel32 h 1 = 1"
  by (simp add: channel32_def float32_1)

text \<open>Evaluation on numerals.\<close>

lemma py_float_numeral:
  "numeral k \<le> (9007199254740992 :: nat) \<Longrightarrow> py_float (numeral k) = numeral k"
  using fl_round_nat[of "numeral k" 53 "- 1022"] by (simp add: py_float_def)

lemma float32_numeral:
  "numeral k \<le> (16777216 :: nat) \<Longrightarrow> float32 (numeral k) = numeral k"
  using fl_round_nat[of "numeral k" 24 "- 126"] by (simp add: float32_def)

lemma py_float_0: "py_float 0 = 0"
  by (simp add: py_float_def fl_round_def)

lemma py_float_1: "py_float 1 = 1"
  using fl_round_nat[of 1 53 "- 1022"] by (simp add: py_float_def)

lemmas float_defs = float32_def fl_round_def ilog2_def pow2_def py_round_def

lemma float32_16777217: "float32 16777217 = 16777216"
  by (simp add: float_defs Let_def)

lemma float32_16777219: "float32 16777219 = 16777220"
  by (simp add: float_defs Let_def)

lemmas float_evals = py_float_numeral float32_numeral py_float_0 py_float_1 float32_0 float32_1
  float32_16777217 float32_16777219

lemma co32_16777217: "co32 16777217 = 16777216"
  by (simp add: co32_def float_evals)

lemma co32_16777219: "co32 16777219 = 16777220"
  by (simp add: co32_def float_evals)

subsection \<open>The sampling loop\<close>

lemma getitem3_cases:
  assumes "0 \<le> x" "0 \<le> y" "0 \<le> z"
  shows "getitem3 a x y z =
           (if in_bounds a [nat x, nat y, nat z] then Inr (cell a [nat x, nat y, nat z])
            else Inl IndexError)"
proof (cases "\<exists>d0 d1 d2. shape a = [d0, d1, d2]")
  case True
  then obtain d0 d1 d2 where s: "shape a = [d0, d1, d2]" by blast
  show ?thesis using assms by (auto simp: getitem3_def norm_index_def in_bounds_def s)
next
  case False
  then have "length (shape a) \<noteq> 3" unfolding len3 by blast
  then have nb: "\<not> in_bounds a [nat x, nat y, nat z]"
    by (auto simp: in_bounds_def dest: list_all2_lengthD)
  have "getitem3 a x y z = Inl IndexError"
    using False by (auto simp: getitem3_def split: list.splits)
  with nb show ?thesis by simp
qed

lemma in_bounds_inside:
  "shape a = [d0, d1, d2] \<Longrightarrow> inside (d0, d1, d2) (x, y, z) \<Longrightarrow> in_bounds a [nat x, nat y, nat z]"
  by (auto simp: in_bounds_def)

lemma step_skip:
  assumes "\<not> inside dims (rounded co)"
  shows "sample_loop h dims msk lac i (co # vs) colors = sample_loop h dims msk lac (Suc i) vs colors"
  using assms by (cases "rounded co") simp

lemma step_mask:
  assumes "shape msk = [d0, d1, d2]" "inside (d0, d1, d2) (x, y, z)"
  shows "getitem3 msk x y z = Inr (cell msk [nat x, nat y, nat z])"
  using assms getitem3_cases[of x y z msk] in_bounds_inside[OF assms] by simp

lemma step_sentinel:
  assumes "shape msk = [d0, d1, d2]" "rounded co = (x, y, z)" "inside (d0, d1, d2) (x, y, z)"
    "\<not> 0 < cell msk [nat x, nat y, nat z]" "i < length colors"
  shows "sample_loop h (d0, d1, d2) msk lac i (co # vs) colors =
         sample_loop h (d0, d1, d2) msk lac (Suc i) vs
           (colors[i := (channel32 h 0, channel32 h 0, channel32 h 0, channel32 h 0)])"
  using assms step_mask[OF assms(1,3)] by (simp add: write_color_def)

lemma step_value:
  assumes "shape msk = [d0, d1, d2]" "rounded co = (x, y, z)" "inside (d0, d1, d2) (x, y, z)"
    "0 < cell msk [nat x, nat y, nat z]" "i < length colors"
    "in_bounds lac [nat x, nat y, nat z]"
  shows "sample_loop h (d0, d1, d2) msk lac i (co # vs) colors =
         sample_loop h (d0, d1, d2) msk lac (Suc i) vs
           (colors[i := sampled_color h lac [nat x, nat y, nat z]])"
proof -
  have "getitem3 lac x y z = Inr (cell lac [nat x, nat y, nat z])"
    using assms(3,6) getitem3_cases[of x y z lac] by simp
  then show ?thesis
    using assms step_mask[OF assms(1,3)] by (simp add: write_color_def sampled_color_def Let_def)
qed

lemma step_error:
  assumes "shape msk = [d0, d1, d2]" "rounded co = (x, y, z)" "inside (d0, d1, d2) (x, y, z)"
    "0 < cell msk [nat x, nat y, nat z]"
    "\<not> in_bounds lac [nat x, nat y, nat z]"
  shows "sample_loop h (d0, d1, d2) msk lac i (co # vs) colors = (colors, Some IndexError)"
proof -
  have "getitem3 lac x y z = Inl IndexError"
    using assms(3,5) getitem3_cases[of x y z lac] by simp
  then show ?thesis
    using assms step_mask[OF assms(1,3)] by simp
qed

lemma enumerate_step:
  assumes "length cs = length colors'"
    and "\<forall>j. j < Suc i \<or> Suc i + length vs \<le> j \<longrightarrow> cs ! j = colors' ! j"
    and "\<forall>k<length vs. cs ! (Suc i + k) = F (vs ! k) (colors' ! (Suc i + k))"
    and "colors' = colors[i := c]" and "i < length colors" and "c = F co (colors ! i)"
  shows "length cs = length colors
       \<and> (\<forall>j. j < i \<or> i + length (co # vs) \<le> j \<longrightarrow> cs ! j = colors ! j)
       \<and> (\<forall>k<length (co # vs). cs ! (i + k) = F ((co # vs) ! k) (colors ! (i + k)))"
proof (intro conjI allI impI)
  show "length cs = length colors" using assms(1,4) by simp
next
  fix j assume "j < i \<or> i + length (co # vs) \<le> j"
  then have "j < Suc i \<or> Suc i + length vs \<le> j" and ne: "j \<noteq> i" by auto
  then have "cs ! j = colors' ! j" using assms(2) by blast
  then show "cs ! j = colors ! j" using ne assms(4) by simp
next
  fix k assume k: "k < length (co # vs)"
  show "cs ! (i + k) = F ((co # vs) ! k) (colors ! (i + k))"
  proof (cases k)
    case 0
    have "cs ! i = colors' ! i" using assms(2) by simp
    then show ?thesis using 0 assms(4,5,6) by simp
  next
    case (Suc k')
    then have "k' < length vs" using k by simp
    then have "cs ! (Suc i + k') = F (vs ! k') (colors' ! (Suc i + k'))" using assms(3) by simp
    then show ?thesis using Suc assms(4) by simp
  qed
qed

lemma sample_loop_colors:
  assumes m: "shape msk = [d0, d1, d2]"
  shows "i + length vs \<le> length colors \<Longrightarrow>
         sample_loop h (d0, d1, d2) msk lac i vs colors = (cs, None) \<Longrightarrow>
         length cs = length colors
       \<and> (\<forall>j. j < i \<or> i + length vs \<le> j \<longrightarrow> cs ! j = colors ! j)
       \<and> (\<forall>k<length vs. cs ! (i + k) = point_color h (d0, d1, d2) msk lac (vs ! k) (colors ! (i + k)))"
proof (induction vs arbitrary: i colors)
  case Nil
  then show ?case by simp
next
  case (Cons co vs)
  note sample_loop.simps(2) [simp del] inside.simps [simp del]
  obtain x y z where r: "rounded co = (x, y, z)" by (cases "rounded co")
  have i: "i < length colors" using Cons.prems(1) by simp
  let ?dims = "(d0, d1, d2)"
  let ?F = "point_color h ?dims msk lac"
  have step: "\<exists>c. c = ?F co (colors ! i)
            \<and> sample_loop h ?dims msk lac (Suc i) vs (colors[i := c]) = (cs, None)"
  proof (cases "inside ?dims (x, y, z)")
    case False
    then show ?thesis
      using Cons.prems(2) r step_skip[of ?dims co h msk lac i vs colors]
      by (simp add: point_color_def)
  next
    case ins: True
    show ?thesis
    proof (cases "0 < cell msk [nat x, nat y, nat z]")
      case False
      then show ?thesis
        using Cons.prems(2) step_sentinel[OF m r ins False i, of h lac vs] r ins
        by (simp add: point_color_def cell_at_def grid_index_def)
    next
      case pos: True
      show ?thesis
      proof (cases "in_bounds lac [nat x, nat y, nat z]")
        case True
        then show ?thesis
          using Cons.prems(2) step_value[OF m r ins pos i True, of h vs] r ins pos
          by (simp add: point_color_def cell_at_def grid_index_def)
      next
        case False
        then show ?thesis
          using Cons.prems(2) step_error[OF m r ins pos False, of h i vs colors] by simp
      qed
    qed
  qed
  then obtain c where c: "c = ?F co (colors ! i)"
    and run: "sample_loop h ?dims msk lac (Suc i) vs (colors[i := c]) = (cs, None)" by blast
  have "Suc i + length vs \<le> length (colors[i := c])" using Cons.prems(1) by simp
  from Cons.IH[OF this run]
  show ?case
    using enumerate_step[of cs "colors[i := c]" i vs ?F colors c co] i c by blast
qed

lemma sample_loop_error:
  assumes m: "shape msk = [d0, d1, d2]"
  shows "i + length vs \<le> length colors \<Longrightarrow>
         snd (sample_loop h (d0, d1, d2) msk lac i vs colors) =
           (if \<exists>co \<in> set vs. inside (d0, d1, d2) (rounded co) \<and> 0 < cell_at msk (rounded co)
                               \<and> \<not> in_bounds lac (grid_index (rounded co))
            then Some IndexError else None)"
proof (induction vs arbitrary: i colors)
  case Nil
  then show ?case by simp
next
  case (Cons co vs)
  note sample_loop.simps(2) [simp del] inside.simps [simp del]
  obtain x y z where r: "rounded co = (x, y, z)" by (cases "rounded co")
  have i: "i < length colors" using Cons.prems(1) by simp
  have len: "\<And>c. Suc i + length vs \<le> length (colors[i := c])" using Cons.prems(1) by simp
  have len': "Suc i + length vs \<le> length colors" using Cons.prems(1) by simp
  let ?dims = "(d0, d1, d2)"
  show ?case
  proof (cases "inside ?dims (x, y, z)")
    case False
    then show ?thesis
      using r step_skip[of ?dims co h msk lac i vs colors] Cons.IH[OF len'] by simp
  next
    case ins: True
    show ?thesis
    proof (cases "0 < cell msk [nat x, nat y, nat z]")
      case False
      then show ?thesis
        using step_sentinel[OF m r ins False i, of h lac vs] r Cons.IH[OF len]
        by (simp add: cell_at_def grid_index_def)
    next
      case pos: True
      show ?thesis
      proof (cases "in_bounds lac [nat x, nat y, nat z]")
        case True
        then show ?thesis
          using step_value[OF m r ins pos i True, of h vs] r Cons.IH[OF len]
          by (simp add: cell_at_def grid_index_def)
      next
        case False
        then show ?thesis
          using step_error[OF m r ins pos False, of h i vs colors] r ins pos
          by (auto simp: cell_at_def grid_index_def)
      qed
    qed
  qed
qed

text \<open>The vertices made from the extracted coordinates, for dimensions up to \<open>2^24 + 1\<close>.\<close>

lemma rounded_vert_of:
  assumes "x \<le> 16777216" "y \<le> 16777216" "z \<le> 16777216"
  shows "rounded (vert_of [x, y, z]) = (int x, int y, int z)"
  using assms by (simp add: co32_exact py_round_real)

lemma extracted_rounded:
  assumes m: "shape msk = [d0, d1, d2]"
    and b: "d0 \<le> 16777217" "d1 \<le> 16777217" "d2 \<le> 16777217"
    and c: "c \<in> set (np_argwhere_gt0 msk)"
  shows "rounded (vert_of c) = (int (c ! 0), int (c ! 1), int (c ! 2))"
proof -
  obtain x y z where xyz: "c = [x, y, z]" "x < d0" "y < d1" "z < d2"
    using argwhere_elem[OF m c] by blast
  have "x \<le> 16777216" "y \<le> 16777216" "z \<le> 16777216" using xyz b by simp_all
  from rounded_vert_of[OF this] show ?thesis using xyz(1) by simp
qed

lemma extracted_vertex:
  assumes m: "shape msk = [d0, d1, d2]"
    and b: "d0 \<le> 16777217" "d1 \<le> 16777217" "d2 \<le> 16777217"
    and c: "c \<in> set (np_argwhere_gt0 msk)"
  shows "grid_index (rounded (vert_of c)) = c
       \<and> inside (d0, d1, d2) (rounded (vert_of c))
       \<and> 0 < cell_at msk (rounded (vert_of c))"
proof -
  obtain x y z where xyz: "c = [x, y, z]" "x < d0" "y < d1" "z < d2" "0 < cell msk [x, y, z]"
    using argwhere_elem[OF m c] by blast
  have r: "rounded (vert_of c) = (int x, int y, int z)"
    using extracted_rounded[OF m b c] xyz(1) by simp
  show ?thesis unfolding r using xyz by (simp add: grid_index_def cell_at_def)
qed

lemma sample_loop_extracted_error:
  assumes m: "shape msk = [d0, d1, d2]"
    and b: "d0 \<le> 16777217" "d1 \<le> 16777217" "d2 \<le> 16777217"
  shows "snd (sample_loop h (d0, d1, d2) msk lac 0 (map vert_of (np_argwhere_gt0 msk))
                (replicate (length (np_argwhere_gt0 msk)) dflt)) =
         (if \<forall>c \<in> set (np_argwhere_gt0 msk). in_bounds lac c then None else Some IndexError)"
proof -
  let ?cs = "np_argwhere_gt0 msk"
  have le: "0 + length (map vert_of ?cs) \<le> length (replicate (length ?cs) dflt)" by simp
  have bad: "(\<exists>co \<in> set (map vert_of ?cs). inside (d0, d1, d2) (rounded co) \<and> 0 < cell_at msk (rounded co)
                 \<and> \<not> in_bounds lac (grid_index (rounded co))) \<longleftrightarrow> (\<exists>c \<in> set ?cs. \<not> in_bounds lac c)"
  proof
    assume "\<exists>co \<in> set (map vert_of ?cs). inside (d0, d1, d2) (rounded co)
              \<and> 0 < cell_at msk (rounded co) \<and> \<not> in_bounds lac (grid_index (rounded co))"
    then obtain c where c: "c \<in> set ?cs" and n: "\<not> in_bounds lac (grid_index (rounded (vert_of c)))"
      by auto
    from extracted_vertex[OF m b c] n have "\<not> in_bounds lac c" by simp
    with c show "\<exists>c \<in> set ?cs. \<not> in_bounds lac c" by blast
  next
    assume "\<exists>c \<in> set ?cs. \<not> in_bounds lac c"
    then obtain c where c: "c \<in> set ?cs" and n: "\<not> in_bounds lac c" by blast
    from extracted_vertex[OF m b c] n
    have "inside (d0, d1, d2) (rounded (vert_of c)) \<and> 0 < cell_at msk (rounded (vert_of c))
            \<and> \<not> in_bounds lac (grid_index (rounded (vert_of c)))" by simp
    moreover have "vert_of c \<in> set (map vert_of ?cs)" using c by simp
    ultimately show "\<exists>co \<in> set (map vert_of ?cs). inside (d0, d1, d2) (rounded co)
              \<and> 0 < cell_at msk (rounded co) \<and> \<not> in_bounds lac (grid_index (rounded co))"
      by blast
  qed
  show ?thesis
    unfolding sample_loop_error[OF m le] bad by auto
qed

lemma sample_loop_extracted_colors:
  assumes m: "shape msk = [d0, d1, d2]"
    and b: "d0 \<le> 16777217" "d1 \<le> 16777217" "d2 \<le> 16777217"
    and cover: "\<forall>c \<in> set (np_argwhere_gt0 msk). in_bounds lac c"
  shows "sample_loop h (d0, d1, d2) msk lac 0 (map vert_of (np_argwhere_gt0 msk))
           (replicate (length (np_argwhere_gt0 msk)) dflt) =
         (map (sampled_color h lac) (np_argwhere_gt0 msk), None)"
proof -
  let ?cs = "np_argwhere_gt0 msk"
  let ?run = "sample_loop h (d0, d1, d2) msk lac 0 (map vert_of ?cs) (replicate (length ?cs) dflt)"
  have le: "0 + length (map vert_of ?cs) \<le> length (replicate (length ?cs) dflt)" by simp
  have "snd ?run = None"
    using sample_loop_extracted_error[OF m b, of h lac dflt] cover by simp
  then obtain cs where run: "?run = (cs, None)" by (cases ?run) auto
  from sample_loop_colors[OF m le run]
  have len: "length cs = length ?cs"
    and nth: "\<forall>k<length ?cs. cs ! k = point_color h (d0, d1, d2) msk lac (vert_of (?cs ! k)) dflt"
    by simp_all
  have "cs = map (sampled_color h lac) ?cs"
  proof (rule nth_equalityI)
    show "length cs = length (map (sampled_color h lac) ?cs)"
      using len by simp
  next
    fix k assume "k < length cs"
    then have k: "k < length ?cs" using len by simp
    then have "?cs ! k \<in> set ?cs" by simp
    from extracted_vertex[OF m b this]
    have "point_color h (d0, d1, d2) msk lac (vert_of (?cs ! k)) dflt = sampled_color h lac (?cs ! k)"
      unfolding point_color_def by presburger
    then show "cs ! k = map (sampled_color h lac) ?cs ! k"
      using nth k by simp
  qed
  with run show ?thesis by simp
qed

lemma build_cloud_no_attribute:
  assumes "attribute_new h a = None"
  shows "build_cloud h a lac msk dims =
           (\<lparr> vertices = map vert_of (np_argwhere_gt0 msk), color_attributes = [],
              mesh_materials = [] \<rparr>, Some AttributeError)"
  using assms by (simp add: build_cloud_def Let_def)


lemma build_cloud_covered:
  assumes "shape msk = [d0, d1, d2]"
    and "d0 \<le> 16777217" "d1 \<le> 16777217" "d2 \<le> 16777217"
    and "\<forall>c \<in> set (np_argwhere_gt0 msk). in_bounds lac c"
    and "attribute_new h a = Some name"
  shows "build_cloud h a lac msk (d0, d1, d2) =
         (\<lparr> vertices = map vert_of (np_argwhere_gt0 msk),
            color_attributes = [(name, map (sampled_color h lac) (np_argwhere_gt0 msk))],
            mesh_materials = [] \<rparr>, None)"
  using sample_loop_extracted_colors[OF assms(1-5), of h "default_color h"] assms(6)
  by (simp add: build_cloud_def Let_def)

lemma same_shape_covered:
  assumes "shape msk = [d0, d1, d2]" and "shape lac = shape msk"
  shows "\<forall>c \<in> set (np_argwhere_gt0 msk). in_bounds lac c"
proof
  fix c assume "c \<in> set (np_argwhere_gt0 msk)"
  then obtain x y z where "c = [x, y, z]" "x < d0" "y < d1" "z < d2"
    using argwhere_elem[OF assms(1)] by blast
  then show "in_bounds lac c" using assms by (simp add: in_bounds_def)
qed

subsection \<open>The Generate operator\<close>

lemma transpose_rank3:
  "length (shape a) = 3 \<Longrightarrow>
   np_transpose_210 a = Inr \<lparr> shape = [shape a ! 2, shape a ! 1, shape a ! 0],
                              cell = (\<lambda>i. cell a [i ! 2, i ! 1, i ! 0]) \<rparr>"
  by (simp add: np_transpose_210_def)

lemma transpose_Inr:
  "np_transpose_210 a = Inr b \<Longrightarrow>
   length (shape a) = 3 \<and> b = \<lparr> shape = [shape a ! 2, shape a ! 1, shape a ! 0],
                                 cell = (\<lambda>i. cell a [i ! 2, i ! 1, i ! 0]) \<rparr>"
  by (auto simp: np_transpose_210_def split: if_splits)

lemma rev3: "length xs = 3 \<Longrightarrow> [xs ! 2, xs ! 1, xs ! 0] = rev xs"
  by (auto simp: len3)

lemma load_volumes_Inr:
  assumes "load_volumes h lp mp = Inr (lac, msk)"
  shows "\<exists>lac0 mask0. np_load h lp = Inr lac0 \<and> np_load h mp = Inr mask0
           \<and> np_transpose_210 lac0 = Inr lac \<and> np_transpose_210 mask0 = Inr msk"
  using assms by (auto simp: load_volumes_def split: sum.splits)

lemma load_volumes_shapes:
  assumes "load_volumes h lp mp = Inr (lac, msk)"
  shows "\<exists>d0 d1 d2 l0 l1 l2. shape msk = [d0, d1, d2] \<and> shape lac = [l0, l1, l2]"
proof -
  obtain lac0 mask0 where "np_transpose_210 lac0 = Inr lac" "np_transpose_210 mask0 = Inr msk"
    using load_volumes_Inr[OF assms] by blast
  then show ?thesis
    using transpose_Inr[of lac0 lac] transpose_Inr[of mask0 msk] by auto
qed

lemma objects_link_output [simp]: "objects (link_output n sc) = objects sc"
  by (simp add: link_output_def split: option.splits)

lemma objects_ensure_node_group [simp]: "objects (ensure_node_group n sc) = objects sc"
  by (simp add: ensure_node_group_def)

lemma objects_ensure_material [simp]: "objects (ensure_material n sc) = objects sc"
  by (simp add: ensure_material_def split: option.splits list.splits)

lemma map_of_update_same: "map_of (AList.update k v al) k = Some v"
  by (simp add: update_conv')

lemma generate_try_fst:
  assumes "load_volumes h lp mp = Inr (lac, msk)" and "shape msk = [d0, d1, d2]"
  shows "fst (generate_try h lp mp a sc) =
           (case snd (build_cloud h a lac msk (d0, d1, d2)) of
              None \<Rightarrow> FINISHED
            | Some e \<Rightarrow> CANCELLED (GenerationFailed e))"
  using assms
  by (simp add: generate_try_def Let_def case_prod_beta split: option.splits)


lemma generate_try_created:
  assumes "load_volumes h lp mp = Inr (lac, msk)" and "shape msk = [d0, d1, d2]"
    and "fst (generate_try h lp mp a sc) = FINISHED"
  shows "created_cloud h sc (snd (generate_try h lp mp a sc)) =
           Some \<lparr> obj_data = fst (build_cloud h a lac msk (d0, d1, d2)),
                  modifiers = [\<lparr> mod_name = ''VoxelGeoNodes'', mod_type = ''NODES'',
                                  mod_node_group = ''Voxel_Instances'' \<rparr>],
                  matrix_world = identity_matrix \<rparr>"
proof -
  obtain me err where b: "build_cloud h a lac msk (d0, d1, d2) = (me, err)"
    by (cases "build_cloud h a lac msk (d0, d1, d2)")
  show ?thesis
  proof (cases err)
    case None
    then show ?thesis
      using assms b by (simp add: generate_try_def Let_def created_cloud_def map_of_update_same)
  next
    case (Some e)
    then show ?thesis
      using assms b by (simp add: generate_try_def Let_def)
  qed
qed

lemma generate_try_finished:
  assumes "load_volumes h lp mp = Inr (lac, msk)" and "shape msk = [d0, d1, d2]"
    and "build_cloud h a lac msk (d0, d1, d2) = (me, None)"
  shows "generate_try h lp mp a sc =
           (FINISHED,
            (ensure_material a (ensure_node_group ''Voxel_Instances''
                (link_output (unique_name h (map fst (objects sc)) ''Cloud'') sc)))
            \<lparr> objects := AList.update (unique_name h (map fst (objects sc)) ''Cloud'')
                \<lparr> obj_data = me,
                  modifiers = [\<lparr> mod_name = ''VoxelGeoNodes'', mod_type = ''NODES'',
                                  mod_node_group = ''Voxel_Instances'' \<rparr>],
                  matrix_world = identity_matrix \<rparr>
                (objects sc) \<rparr>)"
  using assms by (simp add: generate_try_def Let_def)

lemma generate_execute_try:
  assumes "valid_path h (lac_path s)" and "valid_path h (mask_path s)"
    and "strip (attribute_name s) \<noteq> []"
  shows "generate_execute h s sc =
           generate_try h (abspath h (lac_path s)) (abspath h (mask_path s))
             (strip (attribute_name s)) sc"
  using assms by (simp add: generate_execute_def valid_path_def Let_def)



subsection \<open>The k-d tree and the transfer loop\<close>

lemma ex_least:
  fixes f :: "'a \<Rightarrow> real"
  shows "ps \<noteq> [] \<Longrightarrow> \<exists>p \<in> set ps. \<forall>p' \<in> set ps. f p \<le> f p'"
proof (induction ps)
  case Nil
  then show ?case by simp
next
  case (Cons a ps)
  show ?case
  proof (cases "ps = []")
    case True
    then show ?thesis by simp
  next
    case False
    from Cons.IH[OF this] obtain p where p: "p \<in> set ps" "\<forall>p' \<in> set ps. f p \<le> f p'" by blast
    show ?thesis
    proof (cases "f a \<le> f p")
      case True
      then have "\<forall>p' \<in> set (a # ps). f a \<le> f p'" using p(2) by fastforce
      then show ?thesis by auto
    next
      case False
      then have "\<forall>p' \<in> set (a # ps). f p \<le> f p'" using p(2) by fastforce
      then show ?thesis using p(1) by auto
    qed
  qed
qed

lemma nearest_unfold:
  assumes "cands = filter (\<lambda>p. \<forall>p' \<in> set ps. dist2 q (fst p) \<le> dist2 q (fst p')) ps"
  shows "nearest h q ps =
           (if cands = [] then None
            else if kd_tie h q cands \<in> set cands then Some (kd_tie h q cands)
            else Some (hd cands))"
  unfolding nearest_def Let_def assms by (rule refl)

lemma nearest_None_iff: "nearest h q ps = None \<longleftrightarrow> ps = []"
proof -
  define cands where "cands = filter (\<lambda>p. \<forall>p' \<in> set ps. dist2 q (fst p) \<le> dist2 q (fst p')) ps"
  have "cands = [] \<longleftrightarrow> ps = []"
  proof (cases "ps = []")
    case True
    then show ?thesis by (simp add: cands_def)
  next
    case False
    from ex_least[OF this, of "\<lambda>p. dist2 q (fst p)"]
    have "cands \<noteq> []" unfolding cands_def by (simp add: filter_empty_conv)
    with False show ?thesis by simp
  qed
  moreover have "nearest h q ps = None" if "cands = []"
    using that unfolding nearest_unfold[OF cands_def] by simp
  moreover have "\<exists>b. nearest h q ps = Some b" if "cands \<noteq> []"
    using that unfolding nearest_unfold[OF cands_def]
    by (cases "kd_tie h q cands \<in> set cands") simp_all
  ultimately show ?thesis by (cases "cands = []") auto
qed

lemma nearest_Some:
  assumes "nearest h q ps = Some b"
  shows "b \<in> set ps \<and> (\<forall>p \<in> set ps. dist2 q (fst b) \<le> dist2 q (fst p))"
proof -
  define cands where "cands = filter (\<lambda>p. \<forall>p' \<in> set ps. dist2 q (fst p) \<le> dist2 q (fst p')) ps"
  have n: "(if cands = [] then None
            else if kd_tie h q cands \<in> set cands then Some (kd_tie h q cands)
            else Some (hd cands)) = Some b"
    using assms unfolding nearest_unfold[OF cands_def] .
  then have ne: "cands \<noteq> []" by (auto split: if_splits)
  have "b \<in> set cands"
  proof (cases "kd_tie h q cands \<in> set cands")
    case True
    then show ?thesis using n ne by simp
  next
    case False
    then have "b = hd cands" using n ne by simp
    then show ?thesis using ne by simp
  qed
  then show ?thesis unfolding cands_def by simp
qed

lemma nearest_single: "nearest h q [p] = Some p"
proof -
  have c: "[p] = filter (\<lambda>p''. \<forall>p' \<in> set [p]. dist2 q (fst p'') \<le> dist2 q (fst p')) [p]"
    by simp
  show ?thesis unfolding nearest_unfold[OF c] by simp
qed

lemma kd_insert_all_items:
  "length (kd_items kd) + length vs \<le> kd_maxsize kd \<Longrightarrow>
   kd_insert_all kd mw i vs =
     Inr (kd \<lparr> kd_items := kd_items kd @ zip (map (mat_mul_vec mw) vs) [i..<i + length vs] \<rparr>)"
proof (induction vs arbitrary: kd i)
  case Nil
  then show ?case by simp
next
  case (Cons co vs)
  let ?kd' = "kd \<lparr> kd_items := kd_items kd @ [(mat_mul_vec mw co, i)] \<rparr>"
  have ins: "kd_insert kd (mat_mul_vec mw co) i = Inr ?kd'"
    using Cons.prems by (simp add: kd_insert_def)
  have room: "length (kd_items ?kd') + length vs \<le> kd_maxsize ?kd'"
    using Cons.prems by simp
  have "i < i + length (co # vs)" by simp
  from upt_conv_Cons[OF this]
  have up: "[i..<i + length (co # vs)] = i # [Suc i..<Suc i + length vs]" by simp
  show ?case
    using Cons.IH[OF room, of "Suc i"] ins unfolding up by simp
qed

lemma kd_build_items:
  "kd_build mw vs =
     Inr \<lparr> kd_maxsize = length vs,
           kd_items = zip (map (mat_mul_vec mw) vs) [0..<length vs],
           kd_count_balance = length vs \<rparr>"
proof -
  have "length (kd_items (kd_new (length vs))) + length vs \<le> kd_maxsize (kd_new (length vs))"
    by (simp add: kd_new_def)
  from kd_insert_all_items[OF this, of mw 0]
  show ?thesis by (simp add: kd_build_def kd_new_def kd_balance_def)
qed

lemma in_zip_upt:
  "(p, j) \<in> set (zip (map f vs) [0..<length vs]) \<longleftrightarrow> j < length vs \<and> p = f (vs ! j)"
proof
  assume "(p, j) \<in> set (zip (map f vs) [0..<length vs])"
  then show "j < length vs \<and> p = f (vs ! j)" by (auto simp: set_zip)
next
  assume a: "j < length vs \<and> p = f (vs ! j)"
  then have "(p, j) = zip (map f vs) [0..<length vs] ! j" by simp
  moreover have "j < length (zip (map f vs) [0..<length vs])" using a by simp
  ultimately show "(p, j) \<in> set (zip (map f vs) [0..<length vs])"
    using nth_mem by metis
qed

lemma transfer_step:
  assumes "length (kd_items kd) = kd_count_balance kd"
    and "nearest h (mat_mul_vec mw co) (kd_items kd) = Some (p, j)"
    and "j < length src_colors" and "i < length tar"
  shows "transfer_loop h kd mw src_colors i (co # vs) tar =
         transfer_loop h kd mw src_colors (Suc i) vs (tar[i := src_colors ! j])"
  using assms by (simp add: kd_find_def write_color_def)

lemma transfer_loop_result:
  assumes bal: "length (kd_items kd) = kd_count_balance kd"
    and ne: "kd_items kd \<noteq> []"
    and idx: "\<forall>(p, j) \<in> set (kd_items kd). j < length src_colors"
  shows "i + length vs \<le> length tar \<Longrightarrow>
         \<exists>tar'. transfer_loop h kd mw src_colors i vs tar = (tar', None)
           \<and> length tar' = length tar
           \<and> (\<forall>j. j < i \<or> i + length vs \<le> j \<longrightarrow> tar' ! j = tar ! j)
           \<and> (\<forall>k<length vs. tar' ! (i + k) =
                 src_colors ! snd (the (nearest h (mat_mul_vec mw (vs ! k)) (kd_items kd))))"
proof (induction vs arbitrary: i tar)
  case Nil
  then show ?case by simp
next
  case (Cons co vs)
  note transfer_loop.simps(2) [simp del]
  let ?F = "\<lambda>co (old :: color). src_colors ! snd (the (nearest h (mat_mul_vec mw co) (kd_items kd)))"
  obtain p j where n: "nearest h (mat_mul_vec mw co) (kd_items kd) = Some (p, j)"
    using ne nearest_None_iff[of h "mat_mul_vec mw co" "kd_items kd"]
    by (cases "nearest h (mat_mul_vec mw co) (kd_items kd)") auto
  then have "(p, j) \<in> set (kd_items kd)" using nearest_Some by blast
  then have j: "j < length src_colors" using idx by blast
  have i: "i < length tar" using Cons.prems by simp
  have step: "transfer_loop h kd mw src_colors i (co # vs) tar =
         transfer_loop h kd mw src_colors (Suc i) vs (tar[i := src_colors ! j])"
    by (rule transfer_step[OF bal n j i])
  have "Suc i + length vs \<le> length (tar[i := src_colors ! j])" using Cons.prems by simp
  from Cons.IH[OF this] obtain tar' where
    run: "transfer_loop h kd mw src_colors (Suc i) vs (tar[i := src_colors ! j]) = (tar', None)"
    and len: "length tar' = length (tar[i := src_colors ! j])"
    and frame: "\<forall>k. k < Suc i \<or> Suc i + length vs \<le> k \<longrightarrow> tar' ! k = (tar[i := src_colors ! j]) ! k"
    and each: "\<forall>k<length vs. tar' ! (Suc i + k) = ?F (vs ! k) ((tar[i := src_colors ! j]) ! (Suc i + k))"
    by blast
  have c: "src_colors ! j = ?F co (tar ! i)" using n by simp
  from enumerate_step[of tar' "tar[i := src_colors ! j]" i vs ?F tar "src_colors ! j" co,
      OF len frame each refl i c]
  show ?case using step run by simp
qed

text \<open>
  The transfer from a source with at least one vertex: it ends without an
  exception, and every target vertex gets the colour of the source vertex that the
  tree returns for its world position.
\<close>

lemma transfer_attribute_result:
  assumes ne: "vertices (obj_data cloud) \<noteq> []"
    and cover: "length (vertices (obj_data cloud)) \<le> length src_data"
    and point: "\<forall>d. map_of (color_attributes target) a = Some d \<longrightarrow> length d = length (vertices target)"
  shows "\<exists>target' tar'. transfer_attribute h a cloud src_data mw target = (target', None)
      \<and> vertices target' = vertices target
      \<and> map_of (color_attributes target') a = Some tar'
      \<and> length tar' = length (vertices target)
      \<and> (\<forall>i<length (vertices target).
            tar' ! i = src_data ! snd (the (nearest h (mat_mul_vec mw (vertices target ! i))
               (zip (map (mat_mul_vec (matrix_world cloud)) (vertices (obj_data cloud)))
                    [0..<length (vertices (obj_data cloud))]))))"
proof -
  let ?svs = "vertices (obj_data cloud)"
  let ?n = "length ?svs"
  let ?cmw = "matrix_world cloud"
  let ?items = "zip (map (mat_mul_vec ?cmw) ?svs) [0..<?n]"
  let ?kd = "\<lparr> kd_maxsize = ?n, kd_items = ?items, kd_count_balance = ?n \<rparr>"
  let ?src = "take ?n src_data"
  let ?tvs = "vertices target"
  have kb: "kd_build ?cmw ?svs = Inr ?kd" by (rule kd_build_items)
  have bal: "length (kd_items ?kd) = kd_count_balance ?kd" by simp
  have items_ne: "kd_items ?kd \<noteq> []" using ne by (cases ?svs) (simp_all add: upt_conv_Cons)
  have idx: "\<forall>(p, j) \<in> set (kd_items ?kd). j < length ?src"
    using cover by (auto simp: in_zip_upt)
  define tar_data where "tar_data =
      (case map_of (color_attributes target) a of
         None \<Rightarrow> replicate (length (vertices target)) (default_color h)
       | Some d \<Rightarrow> d)"
  define target1 where "target1 =
      (case map_of (color_attributes target) a of
         None \<Rightarrow> target \<lparr> color_attributes := color_attributes target @
                    [(a, replicate (length (vertices target)) (default_color h))] \<rparr>
       | Some d \<Rightarrow> target)"
  have td:
      "(case map_of (color_attributes target) a of
          None \<Rightarrow>
            (let fresh = replicate (length (vertices target)) (default_color h)
             in (fresh, target \<lparr> color_attributes := color_attributes target @ [(a, fresh)] \<rparr>))
        | Some d \<Rightarrow> (d, target)) = (tar_data, target1)"
    by (simp add: tar_data_def target1_def Let_def split: option.splits)
  have tlen: "length tar_data = length ?tvs"
    using point by (simp add: tar_data_def split: option.splits)
  have tv: "vertices target1 = ?tvs"
    by (simp add: target1_def split: option.splits)
  have "0 + length ?tvs \<le> length tar_data" using tlen by simp
  from transfer_loop_result[OF bal items_ne idx this, of h mw]
  obtain tar' where run: "transfer_loop h ?kd mw ?src 0 ?tvs tar_data = (tar', None)"
    and len: "length tar' = length tar_data"
    and each: "\<forall>k<length ?tvs. tar' ! k =
                 ?src ! snd (the (nearest h (mat_mul_vec mw (?tvs ! k)) ?items))"
    by auto
  let ?target' = "target1 \<lparr> color_attributes := AList.update a tar' (color_attributes target1) \<rparr>"
  have res: "transfer_attribute h a cloud src_data mw target = (?target', None)"
    using kb td run cover tv by (simp add: transfer_attribute_def Let_def)
  have near: "tar' ! i = src_data ! snd (the (nearest h (mat_mul_vec mw (?tvs ! i)) ?items))"
    if i: "i < length ?tvs" for i
  proof -
    let ?q = "mat_mul_vec mw (?tvs ! i)"
    obtain p j where n: "nearest h ?q ?items = Some (p, j)"
      using items_ne nearest_None_iff[of h ?q ?items] by (cases "nearest h ?q ?items") auto
    from nearest_Some[OF n] have "(p, j) \<in> set ?items" by simp
    then have j: "j < ?n" by (simp add: in_zip_upt)
    have "tar' ! i = ?src ! j" using each i n by simp
    then show ?thesis using j n by simp
  qed
  have "vertices ?target' = ?tvs" using tv by simp
  moreover have "map_of (color_attributes ?target') a = Some tar'" by (simp add: map_of_update_same)
  moreover have "length tar' = length ?tvs" using len tlen by simp
  ultimately show ?thesis using res near by blast
qed

text \<open>The transfer from a source without vertices.\<close>

lemma transfer_attribute_empty_source:
  assumes "vertices (obj_data cloud) = []"
  shows "snd (transfer_attribute h a cloud src_data mw target) =
           (if vertices target = [] then None else Some TypeError)"
proof -
  have kb: "kd_build (matrix_world cloud) [] =
              Inr \<lparr> kd_maxsize = 0, kd_items = [], kd_count_balance = 0 \<rparr>"
    using kd_build_items[of "matrix_world cloud" "[]"] by simp
  have loop: "snd (transfer_loop h \<lparr> kd_maxsize = 0, kd_items = [], kd_count_balance = 0 \<rparr>
                     mw [] 0 vs tar) = (if vs = [] then None else Some TypeError)" for vs tar
    by (cases vs) (simp_all add: kd_find_def nearest_def)
  show ?thesis
    using assms kb loop
    by (simp add: transfer_attribute_def Let_def case_prod_beta split: option.splits)
qed

subsection \<open>Evaluation of the concrete inputs\<close>

lemmas demo_defs = demo_host_def demo_settings_def empty_scene_def scenario_mask_def
  scenario_values_def scenario_values_3x3x3_def scenario_values_1x1x1_def stored_234_def
  scenario_values_16777217_def

lemmas strip_defs = strip_def whitespace_def leading_def

lemma strip_lac_ves: "strip ''lac_ves'' = ''lac_ves''"
  by (simp add: strip_defs Let_def)

lemma strip_foo: "strip ''foo'' = ''foo''"
  by (simp add: strip_defs Let_def)

lemmas generate_defs = generate_execute_def generate_try_def load_volumes_def np_transpose_210_def
  build_cloud_def np_argwhere_gt0_def link_output_def ensure_node_group_def ensure_material_def
  getitem3_def norm_index_def write_color_def co32_def channel32_def flt_max_def py_round_def
  float_evals strip_lac_ves identity_matrix_def created_cloud_def

lemma demo_argwhere: "np_argwhere_gt0 scenario_mask = [[0, 0, 0], [1, 1, 1]]"
  by (simp add: np_argwhere_gt0_def scenario_mask_def upt_rec)



lemma demo_generate_1x1x1:
  "generate_execute demo_host (demo_settings \<lparr> lac_path := ''lac1.npy'' \<rparr>) empty_scene =
     (CANCELLED (GenerationFailed IndexError),
      \<lparr> objects =
          [(''Cloud'',
            \<lparr> obj_data =
                \<lparr> vertices = [(0, 0, 0), (1, 1, 1)],
                  color_attributes = [(''lac_ves'', [(5, 5, 5, 1), (1, 1, 1, 1)])],
                  mesh_materials = [] \<rparr>,
              modifiers = [],
              matrix_world = ((1, 0, 0, 0), (0, 1, 0, 0), (0, 0, 1, 0)) \<rparr>)],
        collections = [(''Voxel Gen Output'', [''Cloud''])],
        scene_children = [''Voxel Gen Output''],
        node_groups = [],
        materials = [],
        active_object = None \<rparr>)"
  by (simp add: generate_defs demo_defs upt_rec Let_def)

lemma demo_generate_double:
  "generate_execute demo_host (demo_settings \<lparr> lac_path := ''lac_double.npy'' \<rparr>) empty_scene =
     (FINISHED,
      \<lparr> objects =
          [(''Cloud'',
            \<lparr> obj_data =
                \<lparr> vertices = [(0, 0, 0), (1, 1, 1)],
                  color_attributes =
                    [(''lac_ves'', [(16777216, 16777216, 16777216, 1),
                                    (16777216, 16777216, 16777216, 1)])],
                  mesh_materials = [] \<rparr>,
              modifiers = [\<lparr> mod_name = ''VoxelGeoNodes'', mod_type = ''NODES'',
                              mod_node_group = ''Voxel_Instances'' \<rparr>],
              matrix_world = ((1, 0, 0, 0), (0, 1, 0, 0), (0, 0, 1, 0)) \<rparr>)],
        collections = [(''Voxel Gen Output'', [''Cloud''])],
        scene_children = [''Voxel Gen Output''],
        node_groups = [''Voxel_Instances''],
        materials = [(''Voxel_Map'', [''lac_ves''])],
        active_object = None \<rparr>)"
  by (simp add: generate_defs demo_defs upt_rec Let_def)

text \<open>The two long masks: what is loaded, and what the operator makes of it.\<close>

lemma load_long:
  assumes "np_load h lp = Inr (long_values n)" and "np_load h mp = Inr (long_mask n)"
  shows "load_volumes h lp mp =
           Inr (\<lparr> shape = [n, 1, 1], cell = (\<lambda>i. cell (long_values n) [i ! 2, i ! 1, i ! 0]) \<rparr>,
                \<lparr> shape = [n, 1, 1], cell = (\<lambda>i. cell (long_mask n) [i ! 2, i ! 1, i ! 0]) \<rparr>)"
  using assms by (simp add: load_volumes_def np_transpose_210_def long_values_def long_mask_def)

lemma load_a:
  "load_volumes demo_host ''lac_a.npy'' ''mask_a.npy'' =
     Inr (\<lparr> shape = [16777218, 1, 1],
            cell = (\<lambda>i. cell (long_values 16777218) [i ! 2, i ! 1, i ! 0]) \<rparr>,
          \<lparr> shape = [16777218, 1, 1],
            cell = (\<lambda>i. cell (long_mask 16777218) [i ! 2, i ! 1, i ! 0]) \<rparr>)"
  by (rule load_long) (simp_all add: demo_host_def)

lemma load_b:
  "load_volumes demo_host ''lac_b.npy'' ''mask_b.npy'' =
     Inr (\<lparr> shape = [16777220, 1, 1],
            cell = (\<lambda>i. cell (long_values 16777220) [i ! 2, i ! 1, i ! 0]) \<rparr>,
          \<lparr> shape = [16777220, 1, 1],
            cell = (\<lambda>i. cell (long_mask 16777220) [i ! 2, i ! 1, i ! 0]) \<rparr>)"
  by (rule load_long) (simp_all add: demo_host_def)

lemma argwhere_a:
  "np_argwhere_gt0 \<lparr> shape = [16777218, 1, 1],
      cell = (\<lambda>i. cell (long_mask 16777218) [i ! 2, i ! 1, i ! 0]) \<rparr> = [[16777217, 0, 0]]"
  using long_argwhere[of 16777218] by simp

lemma argwhere_b:
  "np_argwhere_gt0 \<lparr> shape = [16777220, 1, 1],
      cell = (\<lambda>i. cell (long_mask 16777220) [i ! 2, i ! 1, i ! 0]) \<rparr> = [[16777219, 0, 0]]"
  using long_argwhere[of 16777220] by simp

lemma demo_generate_a:
  "generate_execute demo_host
     (demo_settings \<lparr> lac_path := ''lac_a.npy'', mask_path := ''mask_a.npy'' \<rparr>) empty_scene =
     (FINISHED,
      \<lparr> objects =
          [(''Cloud'',
            \<lparr> obj_data =
                \<lparr> vertices = [(16777216, 0, 0)],
                  color_attributes = [(''lac_ves'', [(0, 0, 0, 0)])],
                  mesh_materials = [] \<rparr>,
              modifiers = [\<lparr> mod_name = ''VoxelGeoNodes'', mod_type = ''NODES'',
                              mod_node_group = ''Voxel_Instances'' \<rparr>],
              matrix_world = ((1, 0, 0, 0), (0, 1, 0, 0), (0, 0, 1, 0)) \<rparr>)],
        collections = [(''Voxel Gen Output'', [''Cloud''])],
        scene_children = [''Voxel Gen Output''],
        node_groups = [''Voxel_Instances''],
        materials = [(''Voxel_Map'', [''lac_ves''])],
        active_object = None \<rparr>)"
proof -
  let ?s = "demo_settings \<lparr> lac_path := ''lac_a.npy'', mask_path := ''mask_a.npy'' \<rparr>"
  define lac where "lac =
    \<lparr> shape = [16777218, 1, 1], cell = (\<lambda>i. cell (long_values 16777218) [i ! 2, i ! 1, i ! 0]) \<rparr>"
  define msk where "msk =
    \<lparr> shape = [16777218, 1, 1], cell = (\<lambda>i. cell (long_mask 16777218) [i ! 2, i ! 1, i ! 0]) \<rparr>"
  have lv: "load_volumes demo_host ''lac_a.npy'' ''mask_a.npy'' = Inr (lac, msk)"
    unfolding lac_def msk_def by (rule load_a)
  have aw: "np_argwhere_gt0 msk = [[16777217, 0, 0]]"
    unfolding msk_def by (rule argwhere_a)
  have sh: "shape msk = [16777218, 1, 1]" by (simp add: msk_def)
  have c: "cell msk [16777216, 0, 0] = 0" by (simp add: msk_def long_mask_def)
  have co0: "co32 0 = 0" using co32_exact[of 0] by simp
  have bc: "build_cloud demo_host ''lac_ves'' lac msk (16777218, 1, 1) =
          (\<lparr> vertices = [(16777216, 0, 0)], color_attributes = [(''lac_ves'', [(0, 0, 0, 0)])],
             mesh_materials = [] \<rparr>, None)"
    by (simp add: build_cloud_def aw co32_16777217 co0 demo_host_def getitem3_def sh c norm_index_def
          py_round_def write_color_def channel32_def float_evals flt_max_def)
  have tr: "generate_try demo_host ''lac_a.npy'' ''mask_a.npy'' ''lac_ves'' empty_scene =
     (FINISHED,
      \<lparr> objects =
          [(''Cloud'',
            \<lparr> obj_data =
                \<lparr> vertices = [(16777216, 0, 0)],
                  color_attributes = [(''lac_ves'', [(0, 0, 0, 0)])],
                  mesh_materials = [] \<rparr>,
              modifiers = [\<lparr> mod_name = ''VoxelGeoNodes'', mod_type = ''NODES'',
                              mod_node_group = ''Voxel_Instances'' \<rparr>],
              matrix_world = ((1, 0, 0, 0), (0, 1, 0, 0), (0, 0, 1, 0)) \<rparr>)],
        collections = [(''Voxel Gen Output'', [''Cloud''])],
        scene_children = [''Voxel Gen Output''],
        node_groups = [''Voxel_Instances''],
        materials = [(''Voxel_Map'', [''lac_ves''])],
        active_object = None \<rparr>)"
    unfolding generate_try_finished[OF lv sh bc]
    by (simp add: link_output_def ensure_node_group_def ensure_material_def
          identity_matrix_def empty_scene_def demo_host_def)
  have v: "valid_path demo_host (lac_path ?s)" "valid_path demo_host (mask_path ?s)"
    by (simp_all add: valid_path_def demo_host_def demo_settings_def)
  have ab: "abspath demo_host (lac_path ?s) = ''lac_a.npy''"
    "abspath demo_host (mask_path ?s) = ''mask_a.npy''"
    by (simp_all add: demo_host_def demo_settings_def)
  have st: "strip (attribute_name ?s) = ''lac_ves''"
    by (simp add: demo_settings_def strip_lac_ves)
  then have "strip (attribute_name ?s) \<noteq> []" by simp
  from generate_execute_try[OF v this, of empty_scene]
  show ?thesis unfolding ab st by (simp only: tr)
qed

lemma demo_generate_b:
  "generate_execute demo_host
     (demo_settings \<lparr> lac_path := ''lac_b.npy'', mask_path := ''mask_b.npy'' \<rparr>) empty_scene =
     (FINISHED,
      \<lparr> objects =
          [(''Cloud'',
            \<lparr> obj_data =
                \<lparr> vertices = [(16777220, 0, 0)],
                  color_attributes = [(''lac_ves'', [(1, 1, 1, 1)])],
                  mesh_materials = [] \<rparr>,
              modifiers = [\<lparr> mod_name = ''VoxelGeoNodes'', mod_type = ''NODES'',
                              mod_node_group = ''Voxel_Instances'' \<rparr>],
              matrix_world = ((1, 0, 0, 0), (0, 1, 0, 0), (0, 0, 1, 0)) \<rparr>)],
        collections = [(''Voxel Gen Output'', [''Cloud''])],
        scene_children = [''Voxel Gen Output''],
        node_groups = [''Voxel_Instances''],
        materials = [(''Voxel_Map'', [''lac_ves''])],
        active_object = None \<rparr>)"
proof -
  let ?s = "demo_settings \<lparr> lac_path := ''lac_b.npy'', mask_path := ''mask_b.npy'' \<rparr>"
  define lac where "lac =
    \<lparr> shape = [16777220, 1, 1], cell = (\<lambda>i. cell (long_values 16777220) [i ! 2, i ! 1, i ! 0]) \<rparr>"
  define msk where "msk =
    \<lparr> shape = [16777220, 1, 1], cell = (\<lambda>i. cell (long_mask 16777220) [i ! 2, i ! 1, i ! 0]) \<rparr>"
  have lv: "load_volumes demo_host ''lac_b.npy'' ''mask_b.npy'' = Inr (lac, msk)"
    unfolding lac_def msk_def by (rule load_b)
  have aw: "np_argwhere_gt0 msk = [[16777219, 0, 0]]"
    unfolding msk_def by (rule argwhere_b)
  have sh: "shape msk = [16777220, 1, 1]" by (simp add: msk_def)
  have c: "cell msk [16777220, 0, 0] = 0" by (simp add: msk_def long_mask_def)
  have co0: "co32 0 = 0" using co32_exact[of 0] by simp
  have bc: "build_cloud demo_host ''lac_ves'' lac msk (16777220, 1, 1) =
          (\<lparr> vertices = [(16777220, 0, 0)], color_attributes = [(''lac_ves'', [(1, 1, 1, 1)])],
             mesh_materials = [] \<rparr>, None)"
    by (simp add: build_cloud_def aw co32_16777219 co0 demo_host_def getitem3_def sh c norm_index_def
          py_round_def write_color_def channel32_def float_evals flt_max_def)
  have tr: "generate_try demo_host ''lac_b.npy'' ''mask_b.npy'' ''lac_ves'' empty_scene =
     (FINISHED,
      \<lparr> objects =
          [(''Cloud'',
            \<lparr> obj_data =
                \<lparr> vertices = [(16777220, 0, 0)],
                  color_attributes = [(''lac_ves'', [(1, 1, 1, 1)])],
                  mesh_materials = [] \<rparr>,
              modifiers = [\<lparr> mod_name = ''VoxelGeoNodes'', mod_type = ''NODES'',
                              mod_node_group = ''Voxel_Instances'' \<rparr>],
              matrix_world = ((1, 0, 0, 0), (0, 1, 0, 0), (0, 0, 1, 0)) \<rparr>)],
        collections = [(''Voxel Gen Output'', [''Cloud''])],
        scene_children = [''Voxel Gen Output''],
        node_groups = [''Voxel_Instances''],
        materials = [(''Voxel_Map'', [''lac_ves''])],
        active_object = None \<rparr>)"
    unfolding generate_try_finished[OF lv sh bc]
    by (simp add: link_output_def ensure_node_group_def ensure_material_def
          identity_matrix_def empty_scene_def demo_host_def)
  have v: "valid_path demo_host (lac_path ?s)" "valid_path demo_host (mask_path ?s)"
    by (simp_all add: valid_path_def demo_host_def demo_settings_def)
  have ab: "abspath demo_host (lac_path ?s) = ''lac_b.npy''"
    "abspath demo_host (mask_path ?s) = ''mask_b.npy''"
    by (simp_all add: demo_host_def demo_settings_def)
  have st: "strip (attribute_name ?s) = ''lac_ves''"
    by (simp add: demo_settings_def strip_lac_ves)
  then have "strip (attribute_name ?s) \<noteq> []" by simp
  from generate_execute_try[OF v this, of empty_scene]
  show ?thesis unfolding ab st by (simp only: tr)
qed

lemmas smooth_defs = smooth_execute_def make_smooth_object_def apply_smoothing_def
  transfer_attribute_def kd_build_def kd_new_def kd_insert_def kd_balance_def kd_find_def
  nearest_def write_color_def remove_object_def

lemma demo_generate:
  "generate_execute demo_host demo_settings empty_scene =
     (FINISHED,
      \<lparr> objects =
          [(''Cloud'',
            \<lparr> obj_data =
                \<lparr> vertices = [(0, 0, 0), (1, 1, 1)],
                  color_attributes = [(''lac_ves'', [(5, 5, 5, 1), (5, 5, 5, 1)])],
                  mesh_materials = [] \<rparr>,
              modifiers = [\<lparr> mod_name = ''VoxelGeoNodes'', mod_type = ''NODES'',
                              mod_node_group = ''Voxel_Instances'' \<rparr>],
              matrix_world = ((1, 0, 0, 0), (0, 1, 0, 0), (0, 0, 1, 0)) \<rparr>)],
        collections = [(''Voxel Gen Output'', [''Cloud''])],
        scene_children = [''Voxel Gen Output''],
        node_groups = [''Voxel_Instances''],
        materials = [(''Voxel_Map'', [''lac_ves''])],
        active_object = None \<rparr>)"
  by (simp add: generate_defs demo_defs upt_rec Let_def)

lemma demo_smoothed_scene:
  "smoothed_scene =
     \<lparr> objects =
         [(''Cloud'',
           \<lparr> obj_data =
               \<lparr> vertices = [(0, 0, 0), (1, 1, 1)],
                 color_attributes = [(''lac_ves'', [(5, 5, 5, 1), (5, 5, 5, 1)])],
                 mesh_materials = [] \<rparr>,
             modifiers = [\<lparr> mod_name = ''VoxelGeoNodes'', mod_type = ''NODES'',
                             mod_node_group = ''Voxel_Instances'' \<rparr>],
             matrix_world = ((1, 0, 0, 0), (0, 1, 0, 0), (0, 0, 1, 0)) \<rparr>),
          (''Smooth'',
           \<lparr> obj_data =
               \<lparr> vertices = [(1, 0, 0), (9, 0, 0)],
                 color_attributes = [(''lac_ves'', [(5, 5, 5, 1), (5, 5, 5, 1)])],
                 mesh_materials = [''Voxel_Map''] \<rparr>,
             modifiers = [],
             matrix_world = ((1, 0, 0, 0), (0, 1, 0, 0), (0, 0, 1, 0)) \<rparr>)],
       collections = [(''Voxel Gen Output'', [''Cloud'', ''Smooth''])],
       scene_children = [''Voxel Gen Output''],
       node_groups = [''Voxel_Instances'', ''Voxel_Smooth''],
       materials = [(''Voxel_Map'', [''lac_ves''])],
       active_object = Some ''Smooth'' \<rparr>"
  unfolding smoothed_scene_def demo_generate
  by (simp add: smooth_defs link_output_def ensure_node_group_def strip_lac_ves
        demo_host_def demo_settings_def Let_def)

section \<open>The claims\<close>

subsection \<open>The sampling loop\<close>

text \<open>
  Claim C1, as amended. The sampler rounds the position of every vertex and, where
  the rounded position is inside the bounds of the mask, re-checks the mask there.
  It ends with an exception exactly when a position that is inside the bounds, on
  a cell greater than 0, lies outside the value volume; with a value volume of the
  mask's shape it ends without one. When it ends without an exception, every
  vertex inside the bounds has its attribute written: on a cell greater than 0 the
  first three channels hold the scalar of the value volume as a colour attribute
  stores it, and the opacity is 1; on a cell that is not greater than 0 the
  attribute is the sentinel (0, 0, 0, 0). A colour attribute stores a channel in
  single precision within the range of the property, a range that holds 0 and 1:
  a scalar that is a single-precision number in that range is stored as it is.
\<close>

theorem sample_loop_attribute:
  assumes "shape msk = [d0, d1, d2]" and "length colors = length verts"
    and "fst (color_range h) \<le> 0" and "1 \<le> snd (color_range h)"
  shows "snd (sample_loop h (d0, d1, d2) msk lac 0 verts colors) =
           (if \<exists>co \<in> set verts. inside (d0, d1, d2) (rounded co) \<and> 0 < cell_at msk (rounded co)
                                  \<and> \<not> in_bounds lac (grid_index (rounded co))
            then Some IndexError else None)
       \<and> (shape lac = shape msk \<longrightarrow> snd (sample_loop h (d0, d1, d2) msk lac 0 verts colors) = None)
       \<and> (snd (sample_loop h (d0, d1, d2) msk lac 0 verts colors) = None \<longrightarrow>
            length (fst (sample_loop h (d0, d1, d2) msk lac 0 verts colors)) = length verts
          \<and> (\<forall>i<length verts. inside (d0, d1, d2) (rounded (verts ! i)) \<longrightarrow>
                fst (sample_loop h (d0, d1, d2) msk lac 0 verts colors) ! i =
                  (if 0 < cell_at msk (rounded (verts ! i))
                   then (channel32 h (py_float (cell_at lac (rounded (verts ! i)))),
                         channel32 h (py_float (cell_at lac (rounded (verts ! i)))),
                         channel32 h (py_float (cell_at lac (rounded (verts ! i)))), 1)
                   else (0, 0, 0, 0))))
       \<and> (\<forall>v. py_float v = v \<and> float32 v = v \<and> fst (color_range h) \<le> v \<and> v \<le> snd (color_range h)
              \<longrightarrow> channel32 h (py_float v) = v)"
proof -
  let ?run = "sample_loop h (d0, d1, d2) msk lac 0 verts colors"
  let ?bad = "\<exists>co \<in> set verts. inside (d0, d1, d2) (rounded co) \<and> 0 < cell_at msk (rounded co)
                                  \<and> \<not> in_bounds lac (grid_index (rounded co))"
  have le: "0 + length verts \<le> length colors" using assms(2) by simp
  have err: "snd ?run = (if ?bad then Some IndexError else None)"
    by (rule sample_loop_error[OF assms(1) le])
  have same: "snd ?run = None" if s: "shape lac = shape msk"
  proof -
    have "in_bounds lac (grid_index (rounded co))" if "inside (d0, d1, d2) (rounded co)" for co
    proof -
      obtain x y z where r: "rounded co = (x, y, z)" by (cases "rounded co")
      have "shape lac = [d0, d1, d2]" using s assms(1) by simp
      from in_bounds_inside[OF this, of x y z] that r show ?thesis by (simp add: grid_index_def)
    qed
    then have "\<not> ?bad" by blast
    with err show ?thesis by simp
  qed
  have c0: "channel32 h 0 = 0" using assms(3,4) by (intro channel32_0) simp_all
  have c1: "channel32 h 1 = 1" using assms(3,4) by (intro channel32_1) simp_all
  have each: "length (fst ?run) = length verts
          \<and> (\<forall>i<length verts. inside (d0, d1, d2) (rounded (verts ! i)) \<longrightarrow>
                fst ?run ! i =
                  (if 0 < cell_at msk (rounded (verts ! i))
                   then (channel32 h (py_float (cell_at lac (rounded (verts ! i)))),
                         channel32 h (py_float (cell_at lac (rounded (verts ! i)))),
                         channel32 h (py_float (cell_at lac (rounded (verts ! i)))), 1)
                   else (0, 0, 0, 0)))" if n: "snd ?run = None"
  proof -
    obtain cs where run: "?run = (cs, None)" using n by (cases ?run) auto
    from sample_loop_colors[OF assms(1) le run]
    have "length cs = length colors"
      and "\<forall>k<length verts. cs ! k = point_color h (d0, d1, d2) msk lac (verts ! k) (colors ! k)"
      by simp_all
    then show ?thesis
      using run assms(2) by (simp add: point_color_def sampled_color_def cell_at_def c0 c1)
  qed
  have exact: "channel32 h (py_float v) = v"
    if "py_float v = v \<and> float32 v = v \<and> fst (color_range h) \<le> v \<and> v \<le> snd (color_range h)" for v
    using that by (simp add: channel32_def)
  show ?thesis using err same each exact by blast
qed

theorem sample_loop_attribute_witness:
  "shape scenario_mask = [2, 2, 2]
   \<and> length [(1, 1, 1, 1), (1, 1, 1, 1) :: color] = length [(0, 0, 0), (1, 0, 0) :: vec]
   \<and> fst (color_range demo_host) \<le> 0 \<and> 1 \<le> snd (color_range demo_host)
   \<and> shape scenario_values = shape scenario_mask
   \<and> snd (sample_loop demo_host (2, 2, 2) scenario_mask scenario_values 0
            [(0, 0, 0), (1, 0, 0)] [(1, 1, 1, 1), (1, 1, 1, 1)]) = None
   \<and> fst (sample_loop demo_host (2, 2, 2) scenario_mask scenario_values 0
            [(0, 0, 0), (1, 0, 0)] [(1, 1, 1, 1), (1, 1, 1, 1)]) ! 0 = (5, 5, 5, 1)
   \<and> fst (sample_loop demo_host (2, 2, 2) scenario_mask scenario_values 0
            [(0, 0, 0), (1, 0, 0)] [(1, 1, 1, 1), (1, 1, 1, 1)]) ! 1 = (0, 0, 0, 0)
   \<and> py_float 5 = 5 \<and> float32 5 = 5 \<and> channel32 demo_host (py_float 5) = 5"
proof -
  let ?verts = "[(0, 0, 0), (1, 0, 0)] :: vec list"
  let ?colors = "[(1, 1, 1, 1), (1, 1, 1, 1)] :: color list"
  let ?run = "sample_loop demo_host (2, 2, 2) scenario_mask scenario_values 0 ?verts ?colors"
  have m: "shape scenario_mask = [2, 2, 2]" and l: "shape scenario_values = shape scenario_mask"
    by (simp_all add: scenario_mask_def scenario_values_def)
  have n: "length ?colors = length ?verts" by simp
  have r: "fst (color_range demo_host) \<le> 0" "1 \<le> snd (color_range demo_host)"
    by (simp_all add: demo_host_def flt_max_def)
  have f: "py_float 5 = 5" "float32 5 = 5" by (simp_all add: float_evals)
  note t = sample_loop_attribute[OF m n r, of scenario_values]
  from t l have none: "snd ?run = None" by blast
  with t have each: "\<forall>i<length ?verts. inside (2, 2, 2) (rounded (?verts ! i)) \<longrightarrow>
                fst ?run ! i =
                  (if 0 < cell_at scenario_mask (rounded (?verts ! i))
                   then (channel32 demo_host (py_float (cell_at scenario_values (rounded (?verts ! i)))),
                         channel32 demo_host (py_float (cell_at scenario_values (rounded (?verts ! i)))),
                         channel32 demo_host (py_float (cell_at scenario_values (rounded (?verts ! i)))), 1)
                   else (0, 0, 0, 0))"
    by blast
  from t f r have ch: "channel32 demo_host (py_float 5) = 5"
    by (simp add: demo_host_def flt_max_def)
  have rd: "rounded (0, 0, 0) = (0, 0, 0)" "rounded (1, 0, 0) = (1, 0, 0)"
    by (simp_all add: py_round_def)
  note sample_loop.simps(2) [simp del]
  have "fst ?run ! 0 = (5, 5, 5, 1)"
    using each[rule_format, of 0] rd ch
    by (simp add: cell_at_def grid_index_def scenario_mask_def scenario_values_def)
  moreover have "fst ?run ! 1 = (0, 0, 0, 0)"
    using each[rule_format, of 1] rd
    by (simp add: cell_at_def grid_index_def scenario_mask_def scenario_values_def)
  ultimately show ?thesis using m l n r none f ch by simp
qed

theorem sample_loop_attribute_counterexample:
  "map_sum id (\<lambda>(lac, msk). (cell lac [0, 0, 0], cell msk [0, 0, 0]))
       (load_volumes demo_host ''lac_double.npy'' ''mask.npy'') = Inr (16777217, 1)
   \<and> fst (generate_execute demo_host (demo_settings \<lparr> lac_path := ''lac_double.npy'' \<rparr>) empty_scene)
       = FINISHED
   \<and> map_option (\<lambda>ob. (vertices (obj_data ob), color_attributes (obj_data ob)))
        (created_cloud demo_host empty_scene
           (snd (generate_execute demo_host (demo_settings \<lparr> lac_path := ''lac_double.npy'' \<rparr>)
                   empty_scene)))
       = Some ([(0, 0, 0), (1, 1, 1)],
               [(''lac_ves'', [(16777216, 16777216, 16777216, 1), (16777216, 16777216, 16777216, 1)])])
   \<and> (16777216 :: real) \<noteq> 16777217"
  unfolding demo_generate_double
  by (simp add: load_volumes_def demo_defs np_transpose_210_def created_cloud_def)

subsection \<open>Volumes of different shapes\<close>




subsection \<open>Extraction of the occupied coordinates\<close>

text \<open>
  Claim C3. For every three-dimensional mask \<open>M\<close>, \<open>np.argwhere(M > 0)\<close> returns
  exactly the coordinates \<open>[x, y, z]\<close> inside the shape with \<open>M[x, y, z] > 0\<close>, each
  once, in a fixed order (strictly increasing in the lexicographic order of the
  index triples, which is row-major order), and the result is empty if and only if
  no cell is positive.
\<close>

theorem argwhere_extracts_positive_cells:
  assumes "shape M = [d0, d1, d2]"
  shows "set (np_argwhere_gt0 M) =
           {[x, y, z] | x y z. x < d0 \<and> y < d1 \<and> z < d2 \<and> 0 < cell M [x, y, z]}
         \<and> distinct (np_argwhere_gt0 M)
         \<and> sorted_wrt (<) (np_argwhere_gt0 M)
         \<and> (np_argwhere_gt0 M = [] \<longleftrightarrow>
              \<not> (\<exists>x y z. x < d0 \<and> y < d1 \<and> z < d2 \<and> 0 < cell M [x, y, z]))"
proof -
  have s: "set (np_argwhere_gt0 M) =
           {[x, y, z] | x y z. x < d0 \<and> y < d1 \<and> z < d2 \<and> 0 < cell M [x, y, z]}"
    by (rule argwhere_set3[OF assms])
  have e: "np_argwhere_gt0 M = [] \<longleftrightarrow> set (np_argwhere_gt0 M) = {}" by simp
  show ?thesis
    unfolding e unfolding s using argwhere_general(2,3)[of M] by auto
qed

theorem argwhere_extracts_positive_cells_witness:
  "shape scenario_mask = [2, 2, 2]
   \<and> set (np_argwhere_gt0 scenario_mask) = {[0, 0, 0], [1, 1, 1]}
   \<and> np_argwhere_gt0 scenario_mask = [[0, 0, 0], [1, 1, 1]]
   \<and> distinct (np_argwhere_gt0 scenario_mask)
   \<and> sorted_wrt (<) (np_argwhere_gt0 scenario_mask)
   \<and> np_argwhere_gt0 scenario_mask \<noteq> []"
  using argwhere_extracts_positive_cells[of scenario_mask 2 2 2]
  by (simp add: demo_argwhere) (simp add: scenario_mask_def)

subsection \<open>Attribute transfer\<close>

text \<open>
  Claim C4. The transfer is an exact nearest-neighbour copy. For a source with at
  least one vertex and a colour for each of its vertices, and a target whose
  attribute, where it exists, has one colour per vertex, the transfer ends without
  an exception and the attribute of every target vertex equals, component for
  component, the attribute of a source vertex at the least distance (in world
  space) from it; so every transferred value is one of the source's values.
\<close>

theorem transfer_copies_nearest:
  assumes ne: "vertices (obj_data cloud) \<noteq> []"
    and cover: "length (vertices (obj_data cloud)) \<le> length src_data"
    and point: "\<forall>d. map_of (color_attributes target) a = Some d \<longrightarrow> length d = length (vertices target)"
  shows "\<exists>target' tar'. transfer_attribute h a cloud src_data mw target = (target', None)
      \<and> vertices target' = vertices target
      \<and> map_of (color_attributes target') a = Some tar'
      \<and> length tar' = length (vertices target)
      \<and> (\<forall>i<length (vertices target). \<exists>j<length (vertices (obj_data cloud)).
            tar' ! i = src_data ! j
          \<and> (\<forall>k<length (vertices (obj_data cloud)).
               dist2 (mat_mul_vec mw (vertices target ! i))
                     (mat_mul_vec (matrix_world cloud) (vertices (obj_data cloud) ! j))
             \<le> dist2 (mat_mul_vec mw (vertices target ! i))
                     (mat_mul_vec (matrix_world cloud) (vertices (obj_data cloud) ! k))))
      \<and> set tar' \<subseteq> set src_data"
proof -
  let ?svs = "vertices (obj_data cloud)"
  let ?n = "length ?svs"
  let ?cmw = "matrix_world cloud"
  let ?items = "zip (map (mat_mul_vec ?cmw) ?svs) [0..<?n]"
  let ?tvs = "vertices target"
  have items_ne: "?items \<noteq> []" using ne by (cases ?svs) (simp_all add: upt_conv_Cons)
  from transfer_attribute_result[OF ne cover point, of h mw]
  obtain target' tar' where res: "transfer_attribute h a cloud src_data mw target = (target', None)"
    and tv: "vertices target' = ?tvs"
    and att: "map_of (color_attributes target') a = Some tar'"
    and len: "length tar' = length ?tvs"
    and each: "\<forall>i<length ?tvs. tar' ! i =
                 src_data ! snd (the (nearest h (mat_mul_vec mw (?tvs ! i)) ?items))"
    by blast
  have near: "\<exists>j<?n. tar' ! i = src_data ! j
          \<and> (\<forall>k<?n. dist2 (mat_mul_vec mw (?tvs ! i)) (mat_mul_vec ?cmw (?svs ! j))
                    \<le> dist2 (mat_mul_vec mw (?tvs ! i)) (mat_mul_vec ?cmw (?svs ! k)))"
    if i: "i < length ?tvs" for i
  proof -
    let ?q = "mat_mul_vec mw (?tvs ! i)"
    obtain p j where n: "nearest h ?q ?items = Some (p, j)"
      using items_ne nearest_None_iff[of h ?q ?items] by (cases "nearest h ?q ?items") auto
    from nearest_Some[OF n] have mem: "(p, j) \<in> set ?items"
      and least: "\<forall>b \<in> set ?items. dist2 ?q p \<le> dist2 ?q (fst b)" by simp_all
    from mem have j: "j < ?n" and p: "p = mat_mul_vec ?cmw (?svs ! j)"
      by (simp_all add: in_zip_upt)
    have c: "tar' ! i = src_data ! j" using each i n by simp
    have "dist2 ?q p \<le> dist2 ?q (mat_mul_vec ?cmw (?svs ! k))" if "k < ?n" for k
    proof -
      have "(mat_mul_vec ?cmw (?svs ! k), k) \<in> set ?items" using that by (simp add: in_zip_upt)
      with least show ?thesis by fastforce
    qed
    with j c p show ?thesis by blast
  qed
  have sub: "set tar' \<subseteq> set src_data"
  proof
    fix c assume "c \<in> set tar'"
    then obtain i where "i < length tar'" "c = tar' ! i" by (auto simp: in_set_conv_nth)
    then have "i < length ?tvs" using len by simp
    from near[OF this] obtain j where "j < ?n" "tar' ! i = src_data ! j" by blast
    then show "c \<in> set src_data" using cover \<open>c = tar' ! i\<close> by simp
  qed
  show ?thesis using res tv att len near sub by blast
qed

theorem transfer_copies_nearest_witness:
  "vertices (obj_data scenario_cloud) \<noteq> []
   \<and> length (vertices (obj_data scenario_cloud)) \<le> length [(1, 0, 0, 1), (0, 1, 0, 1) :: color]
   \<and> map_of (color_attributes scenario_target) ''lac_ves'' = None
   \<and> transfer_attribute demo_host ''lac_ves'' scenario_cloud [(1, 0, 0, 1), (0, 1, 0, 1)]
        identity_matrix scenario_target
       = (\<lparr> vertices = [(1, 0, 0), (9, 0, 0)],
            color_attributes = [(''lac_ves'', [(1, 0, 0, 1), (0, 1, 0, 1)])],
            mesh_materials = [] \<rparr>, None)"
proof -
  have a: "vertices (obj_data scenario_cloud) \<noteq> []"
    and b: "length (vertices (obj_data scenario_cloud)) \<le> length [(1, 0, 0, 1), (0, 1, 0, 1) :: color]"
    and c: "map_of (color_attributes scenario_target) ''lac_ves'' = None"
    by (simp_all add: scenario_cloud_def scenario_target_def)
  from c have c': "\<forall>d. map_of (color_attributes scenario_target) ''lac_ves'' = Some d
                     \<longrightarrow> length d = length (vertices scenario_target)" by simp
  from transfer_copies_nearest[OF a b c', of demo_host identity_matrix]
  obtain target' where "transfer_attribute demo_host ''lac_ves'' scenario_cloud
        [(1, 0, 0, 1), (0, 1, 0, 1)] identity_matrix scenario_target = (target', None)"
    by blast
  moreover have "fst (transfer_attribute demo_host ''lac_ves'' scenario_cloud
        [(1, 0, 0, 1), (0, 1, 0, 1)] identity_matrix scenario_target)
       = \<lparr> vertices = [(1, 0, 0), (9, 0, 0)],
            color_attributes = [(''lac_ves'', [(1, 0, 0, 1), (0, 1, 0, 1)])],
            mesh_materials = [] \<rparr>"
    by (simp add: smooth_defs scenario_cloud_def scenario_target_def identity_matrix_def
          demo_host_def Let_def)
  ultimately show ?thesis using a b c by simp
qed

subsection \<open>A source without the attribute\<close>

text \<open>
  Claim C5. Smooth is run on a scene that holds the cloud with its attribute
  "lac\_ves" and a "Smooth" object of an earlier run, with the attribute name set
  to "foo", which the cloud does not have. The operator is cancelled with the
  report that the attribute was not found on the cloud, but only after line 232
  removed the earlier "Smooth" object and lines 235 to 306 put a new one in its
  place: the scene is not the one before the run, and its "Smooth" object has no
  colour attribute.
\<close>

theorem smooth_missing_attribute_replaces_output:
  "map_option (\<lambda>ob. color_attributes (obj_data ob)) (map_of (objects smoothed_scene) ''Smooth'')
       = Some [(''lac_ves'', [(5, 5, 5, 1), (5, 5, 5, 1)])]
   \<and> map_of (color_attributes (obj_data (the (map_of (objects smoothed_scene) ''Cloud'')))) ''foo'' = None
   \<and> fst (smooth_execute demo_host (demo_settings \<lparr> attribute_name := ''foo'' \<rparr>) smoothed_scene)
       = CANCELLED AttributeNotFound
   \<and> map_option (\<lambda>ob. color_attributes (obj_data ob))
        (map_of (objects (snd (smooth_execute demo_host (demo_settings \<lparr> attribute_name := ''foo'' \<rparr>)
                                 smoothed_scene))) ''Smooth'')
       = Some []
   \<and> snd (smooth_execute demo_host (demo_settings \<lparr> attribute_name := ''foo'' \<rparr>) smoothed_scene)
       \<noteq> smoothed_scene"
  unfolding demo_smoothed_scene
  by (simp add: smooth_defs link_output_def ensure_node_group_def strip_foo
        demo_host_def demo_settings_def Let_def)

subsection \<open>The axis convention\<close>

text \<open>
  Claim C6. When both files hold three-dimensional arrays, loading succeeds, each
  loaded array has the stored shape reversed and \<open>loaded[x, y, z]\<close> is
  \<open>stored[z, y, x]\<close>; the same reversal is applied to the value volume and to the
  mask.
\<close>

theorem load_volumes_axes:
  assumes "np_load h lp = Inr lac0" and "np_load h mp = Inr mask0"
    and "length (shape lac0) = 3" and "length (shape mask0) = 3"
  shows "\<exists>lac msk. load_volumes h lp mp = Inr (lac, msk)
           \<and> shape lac = rev (shape lac0) \<and> shape msk = rev (shape mask0)
           \<and> (\<forall>x y z. cell lac [x, y, z] = cell lac0 [z, y, x]
                      \<and> cell msk [x, y, z] = cell mask0 [z, y, x])"
  using assms rev3[of "shape lac0"] rev3[of "shape mask0"]
  by (simp add: load_volumes_def transpose_rank3)

theorem load_volumes_axes_witness:
  "np_load demo_host ''stored.npy'' = Inr stored_234
   \<and> np_load demo_host ''mask.npy'' = Inr scenario_mask
   \<and> length (shape stored_234) = 3 \<and> length (shape scenario_mask) = 3
   \<and> (\<exists>lac msk. load_volumes demo_host ''stored.npy'' ''mask.npy'' = Inr (lac, msk)
         \<and> shape lac = [4, 3, 2] \<and> shape msk = [2, 2, 2]
         \<and> cell lac [3, 2, 1] = 123 \<and> cell msk [1, 1, 1] = 1)"
proof -
  have a: "np_load demo_host ''stored.npy'' = Inr stored_234"
    and b: "np_load demo_host ''mask.npy'' = Inr scenario_mask"
    and c: "length (shape stored_234) = 3" and d: "length (shape scenario_mask) = 3"
    by (simp_all add: demo_defs)
  obtain lac msk where "load_volumes demo_host ''stored.npy'' ''mask.npy'' = Inr (lac, msk)"
    and "shape lac = rev (shape stored_234)" and "shape msk = rev (shape scenario_mask)"
    and "\<forall>x y z. cell lac [x, y, z] = cell stored_234 [z, y, x]
                  \<and> cell msk [x, y, z] = cell scenario_mask [z, y, x]"
    using load_volumes_axes[OF a b c d] by blast
  then have "load_volumes demo_host ''stored.npy'' ''mask.npy'' = Inr (lac, msk)
         \<and> shape lac = [4, 3, 2] \<and> shape msk = [2, 2, 2]
         \<and> cell lac [3, 2, 1] = 123 \<and> cell msk [1, 1, 1] = 1"
    by (simp add: stored_234_def scenario_mask_def)
  then show ?thesis using a b c d by blast
qed

subsection \<open>An empty attribute name\<close>

text \<open>
  Claim C7. When the attribute name is empty (it is stripped of whitespace first,
  so also when it holds whitespace only), Generate fails before anything is loaded
  or created: the operator is cancelled with an error report and the scene is
  exactly as it was. The report is "Attribute Name cannot be empty." whenever the
  two files are there. The checks of lines 69 to 75 come before the check of the
  name, so where a file is missing the operator reports the missing file instead,
  the value file first.
\<close>

theorem generate_empty_attribute_name:
  assumes "strip (attribute_name s) = []"
  shows "snd (generate_execute h s sc) = sc
       \<and> fst (generate_execute h s sc) =
           CANCELLED (if \<not> valid_path h (lac_path s) then ParamPathInvalid
                      else if \<not> valid_path h (mask_path s) then MaskPathInvalid
                      else AttributeNameEmpty)"
  using assms by (auto simp: generate_execute_def Let_def valid_path_def)

theorem generate_empty_attribute_name_witness:
  "strip [] = []
   \<and> valid_path demo_host (lac_path demo_settings) \<and> valid_path demo_host (mask_path demo_settings)
   \<and> generate_execute demo_host (demo_settings \<lparr> attribute_name := [] \<rparr>) empty_scene
       = (CANCELLED AttributeNameEmpty, empty_scene)
   \<and> strip [CHR 0x20, CHR 0x09, CHR 0xC2, CHR 0xA0, CHR 0xE3, CHR 0x80, CHR 0x80] = []
   \<and> generate_execute demo_host
        (demo_settings \<lparr> attribute_name := [CHR 0x20, CHR 0x09, CHR 0xC2, CHR 0xA0,
                                              CHR 0xE3, CHR 0x80, CHR 0x80] \<rparr>) empty_scene
       = (CANCELLED AttributeNameEmpty, empty_scene)
   \<and> generate_execute demo_host (demo_settings \<lparr> lac_path := [], attribute_name := [] \<rparr>) empty_scene
       = (CANCELLED ParamPathInvalid, empty_scene)
   \<and> generate_execute demo_host
        (demo_settings \<lparr> mask_path := ''missing.npy'', attribute_name := [] \<rparr>) empty_scene
       = (CANCELLED MaskPathInvalid, empty_scene)"
proof -
  let ?ws = "[CHR 0x20, CHR 0x09, CHR 0xC2, CHR 0xA0, CHR 0xE3, CHR 0x80, CHR 0x80]"
  let ?s1 = "demo_settings \<lparr> attribute_name := [] \<rparr>"
  let ?s2 = "demo_settings \<lparr> attribute_name := ?ws \<rparr>"
  let ?s3 = "demo_settings \<lparr> lac_path := [], attribute_name := [] \<rparr>"
  let ?s4 = "demo_settings \<lparr> mask_path := ''missing.npy'', attribute_name := [] \<rparr>"
  have e: "strip [] = []" by (simp add: strip_defs)
  have w: "strip ?ws = []" by (simp add: strip_defs Let_def)
  have v: "valid_path demo_host (lac_path demo_settings)" "valid_path demo_host (mask_path demo_settings)"
    by (simp_all add: valid_path_def demo_host_def demo_settings_def)
  have n3: "\<not> valid_path demo_host (lac_path ?s3)"
    by (simp add: valid_path_def)
  have v4: "valid_path demo_host (lac_path ?s4)" and n4: "\<not> valid_path demo_host (mask_path ?s4)"
    by (simp_all add: valid_path_def demo_host_def demo_settings_def)
  have a1: "strip (attribute_name ?s1) = []" using e by simp
  have a2: "strip (attribute_name ?s2) = []" using w by simp
  have a3: "strip (attribute_name ?s3) = []" using e by simp
  have a4: "strip (attribute_name ?s4) = []" using e by simp
  have "generate_execute demo_host ?s1 empty_scene = (CANCELLED AttributeNameEmpty, empty_scene)"
    using generate_empty_attribute_name[OF a1, of demo_host empty_scene] v
    by (simp add: prod_eq_iff)
  moreover have "generate_execute demo_host ?s2 empty_scene = (CANCELLED AttributeNameEmpty, empty_scene)"
    using generate_empty_attribute_name[OF a2, of demo_host empty_scene] v
    by (simp add: prod_eq_iff)
  moreover have "generate_execute demo_host ?s3 empty_scene = (CANCELLED ParamPathInvalid, empty_scene)"
    using generate_empty_attribute_name[OF a3, of demo_host empty_scene] n3
    by (simp add: prod_eq_iff)
  moreover have "generate_execute demo_host ?s4 empty_scene = (CANCELLED MaskPathInvalid, empty_scene)"
    using generate_empty_attribute_name[OF a4, of demo_host empty_scene] v4 n4
    by (simp add: prod_eq_iff)
  ultimately show ?thesis using e w v by simp
qed

subsection \<open>Determinism\<close>




subsection \<open>Small point sets in the k-d tree\<close>

text \<open>
  Claim C9, as amended. The tree is built, and balanced, over a source of no point
  and over a source of one point. A query against the tree without points does
  not fail: \<open>find\<close> returns no point (\<open>None\<close>). The transfer from a source without
  points then ends at its first target vertex with the \<open>TypeError\<close> of indexing the
  source colours with \<open>None\<close>, and without any failure when the target has no
  vertex. Against the tree of one point \<open>find\<close> returns that point, with index 0,
  whatever the query position, and the transfer gives every target vertex the
  attribute of that point.
\<close>

theorem kd_tree_small_point_sets:
  "kd_build mw [] = Inr \<lparr> kd_maxsize = 0, kd_items = [], kd_count_balance = 0 \<rparr>
   \<and> kd_find h \<lparr> kd_maxsize = 0, kd_items = [], kd_count_balance = 0 \<rparr> q = Inr None
   \<and> (vertices (obj_data cloud) = [] \<longrightarrow>
        snd (transfer_attribute h a cloud src_data tmw target) =
          (if vertices target = [] then None else Some TypeError))
   \<and> kd_build mw [p] =
        Inr \<lparr> kd_maxsize = 1, kd_items = [(mat_mul_vec mw p, 0)], kd_count_balance = 1 \<rparr>
   \<and> kd_find h \<lparr> kd_maxsize = 1, kd_items = [(mat_mul_vec mw p, 0)], kd_count_balance = 1 \<rparr> q
        = Inr (Some (mat_mul_vec mw p, 0))
   \<and> (vertices (obj_data cloud) = [p] \<and> src_data \<noteq> []
        \<and> (\<forall>d. map_of (color_attributes target) a = Some d \<longrightarrow> length d = length (vertices target))
      \<longrightarrow> (\<exists>target'. transfer_attribute h a cloud src_data tmw target = (target', None)
            \<and> vertices target' = vertices target
            \<and> map_of (color_attributes target') a
                = Some (replicate (length (vertices target)) (hd src_data))))"
proof (intro conjI impI)
  show "kd_build mw [] = Inr \<lparr> kd_maxsize = 0, kd_items = [], kd_count_balance = 0 \<rparr>"
    using kd_build_items[of mw "[]"] by simp
  show "kd_find h \<lparr> kd_maxsize = 0, kd_items = [], kd_count_balance = 0 \<rparr> q = Inr None"
    by (simp add: kd_find_def nearest_def)
  show "kd_build mw [p] =
        Inr \<lparr> kd_maxsize = 1, kd_items = [(mat_mul_vec mw p, 0)], kd_count_balance = 1 \<rparr>"
    using kd_build_items[of mw "[p]"] by simp
  show "kd_find h \<lparr> kd_maxsize = 1, kd_items = [(mat_mul_vec mw p, 0)], kd_count_balance = 1 \<rparr> q
        = Inr (Some (mat_mul_vec mw p, 0))"
    by (simp add: kd_find_def nearest_single)
next
  assume "vertices (obj_data cloud) = []"
  then show "snd (transfer_attribute h a cloud src_data tmw target) =
          (if vertices target = [] then None else Some TypeError)"
    by (rule transfer_attribute_empty_source)
next
  assume a: "vertices (obj_data cloud) = [p] \<and> src_data \<noteq> []
        \<and> (\<forall>d. map_of (color_attributes target) a = Some d \<longrightarrow> length d = length (vertices target))"
  then have v: "vertices (obj_data cloud) = [p]" and s: "src_data \<noteq> []"
    and point: "\<forall>d. map_of (color_attributes target) a = Some d \<longrightarrow> length d = length (vertices target)"
    by simp_all
  have ne: "vertices (obj_data cloud) \<noteq> []" using v by simp
  have cover: "length (vertices (obj_data cloud)) \<le> length src_data"
    using v s by (cases src_data) simp_all
  from transfer_attribute_result[OF ne cover point, of h tmw]
  obtain target' tar' where res: "transfer_attribute h a cloud src_data tmw target = (target', None)"
    and tv: "vertices target' = vertices target"
    and att: "map_of (color_attributes target') a = Some tar'"
    and len: "length tar' = length (vertices target)"
    and each: "\<forall>i<length (vertices target). tar' ! i =
                 src_data ! snd (the (nearest h (mat_mul_vec tmw (vertices target ! i))
                   (zip (map (mat_mul_vec (matrix_world cloud)) (vertices (obj_data cloud)))
                        [0..<length (vertices (obj_data cloud))])))"
    by blast
  have "tar' = replicate (length (vertices target)) (hd src_data)"
  proof (rule nth_equalityI)
    show "length tar' = length (replicate (length (vertices target)) (hd src_data))"
      using len by simp
  next
    fix i assume "i < length tar'"
    then have i: "i < length (vertices target)" using len by simp
    have "tar' ! i = src_data ! 0"
      using each i v by (simp add: nearest_single)
    then show "tar' ! i = replicate (length (vertices target)) (hd src_data) ! i"
      using i s by (simp add: hd_conv_nth)
  qed
  with res tv att
  show "\<exists>target'. transfer_attribute h a cloud src_data tmw target = (target', None)
            \<and> vertices target' = vertices target
            \<and> map_of (color_attributes target') a
                = Some (replicate (length (vertices target)) (hd src_data))"
    by blast
qed

theorem kd_tree_small_point_sets_witness:
  "vertices (obj_data (scenario_cloud \<lparr> obj_data := \<lparr> vertices = [(10, 0, 0)],
        color_attributes = [(''lac_ves'', [(0, 1, 0, 1)])], mesh_materials = [] \<rparr> \<rparr>)) = [(10, 0, 0)]
   \<and> map_of (color_attributes scenario_target) ''lac_ves'' = None
   \<and> kd_find demo_host
        \<lparr> kd_maxsize = 1, kd_items = [((10, 0, 0), 0)], kd_count_balance = 1 \<rparr> (- 100, 3, 7)
       = Inr (Some ((10, 0, 0), 0))
   \<and> transfer_attribute demo_host ''lac_ves''
        (scenario_cloud \<lparr> obj_data := \<lparr> vertices = [(10, 0, 0)],
           color_attributes = [(''lac_ves'', [(0, 1, 0, 1)])], mesh_materials = [] \<rparr> \<rparr>)
        [(0, 1, 0, 1)] identity_matrix scenario_target
       = (\<lparr> vertices = [(1, 0, 0), (9, 0, 0)],
            color_attributes = [(''lac_ves'', [(0, 1, 0, 1), (0, 1, 0, 1)])],
            mesh_materials = [] \<rparr>, None)
   \<and> vertices (obj_data (scenario_cloud \<lparr> obj_data := \<lparr> vertices = [],
        color_attributes = [(''lac_ves'', [])], mesh_materials = [] \<rparr> \<rparr>)) = []
   \<and> snd (transfer_attribute demo_host ''lac_ves''
        (scenario_cloud \<lparr> obj_data := \<lparr> vertices = [],
           color_attributes = [(''lac_ves'', [])], mesh_materials = [] \<rparr> \<rparr>)
        [] identity_matrix scenario_target) = Some TypeError"
proof -
  let ?one = "scenario_cloud \<lparr> obj_data := \<lparr> vertices = [(10, 0, 0)],
        color_attributes = [(''lac_ves'', [(0, 1, 0, 1)])], mesh_materials = [] \<rparr> \<rparr>"
  let ?none = "scenario_cloud \<lparr> obj_data := \<lparr> vertices = [],
        color_attributes = [(''lac_ves'', [])], mesh_materials = [] \<rparr> \<rparr>"
  have v1: "vertices (obj_data ?one) = [(10, 0, 0)]" and v0: "vertices (obj_data ?none) = []"
    by simp_all
  have na: "map_of (color_attributes scenario_target) ''lac_ves'' = None"
    by (simp add: scenario_target_def)
  have tv: "vertices scenario_target \<noteq> []" by (simp add: scenario_target_def)
  have f: "kd_find demo_host
        \<lparr> kd_maxsize = 1, kd_items = [((10, 0, 0), 0)], kd_count_balance = 1 \<rparr> (- 100, 3, 7)
       = Inr (Some ((10, 0, 0), 0))"
    using kd_tree_small_point_sets[of identity_matrix demo_host "(- 100, 3, 7)" ?one
            "''lac_ves''" "[(0, 1, 0, 1)]" identity_matrix scenario_target "(10, 0, 0)"]
    by (simp add: identity_matrix_def)
  have "\<exists>target'. transfer_attribute demo_host ''lac_ves'' ?one [(0, 1, 0, 1)] identity_matrix
                     scenario_target = (target', None)
            \<and> vertices target' = vertices scenario_target
            \<and> map_of (color_attributes target') ''lac_ves''
                = Some (replicate (length (vertices scenario_target)) (hd [(0, 1, 0, 1)]))"
    using kd_tree_small_point_sets[of identity_matrix demo_host "(- 100, 3, 7)" ?one
            "''lac_ves''" "[(0, 1, 0, 1)]" identity_matrix scenario_target "(10, 0, 0)"] v1 na
    by simp
  then have ok: "snd (transfer_attribute demo_host ''lac_ves'' ?one [(0, 1, 0, 1)] identity_matrix
                     scenario_target) = None"
    by auto
  have ev: "fst (transfer_attribute demo_host ''lac_ves'' ?one [(0, 1, 0, 1)] identity_matrix
                     scenario_target)
       = \<lparr> vertices = [(1, 0, 0), (9, 0, 0)],
            color_attributes = [(''lac_ves'', [(0, 1, 0, 1), (0, 1, 0, 1)])],
            mesh_materials = [] \<rparr>"
    by (simp add: smooth_defs scenario_cloud_def scenario_target_def identity_matrix_def
          demo_host_def Let_def)
  have t1: "transfer_attribute demo_host ''lac_ves'' ?one [(0, 1, 0, 1)] identity_matrix scenario_target
       = (\<lparr> vertices = [(1, 0, 0), (9, 0, 0)],
            color_attributes = [(''lac_ves'', [(0, 1, 0, 1), (0, 1, 0, 1)])],
            mesh_materials = [] \<rparr>, None)"
    using ok ev by (simp add: prod_eq_iff)
  have t0: "snd (transfer_attribute demo_host ''lac_ves'' ?none [] identity_matrix scenario_target)
              = Some TypeError"
    using kd_tree_small_point_sets[of identity_matrix demo_host "(- 100, 3, 7)" ?none
            "''lac_ves''" "[]" identity_matrix scenario_target "(10, 0, 0)"] v0 tv
    by simp
  show ?thesis using v1 v0 na f t1 t0 by simp
qed

theorem kd_tree_small_point_sets_counterexample:
  "kd_build identity_matrix [] = Inr \<lparr> kd_maxsize = 0, kd_items = [], kd_count_balance = 0 \<rparr>
   \<and> kd_find demo_host \<lparr> kd_maxsize = 0, kd_items = [], kd_count_balance = 0 \<rparr> (1, 0, 0) = Inr None
   \<and> snd (transfer_attribute demo_host ''lac_ves''
        (scenario_cloud \<lparr> obj_data := \<lparr> vertices = [],
           color_attributes = [(''lac_ves'', [])], mesh_materials = [] \<rparr> \<rparr>)
        [] identity_matrix scenario_target) = Some TypeError
   \<and> snd (transfer_attribute demo_host ''lac_ves''
        (scenario_cloud \<lparr> obj_data := \<lparr> vertices = [],
           color_attributes = [(''lac_ves'', [])], mesh_materials = [] \<rparr> \<rparr>)
        [] identity_matrix \<lparr> vertices = [], color_attributes = [], mesh_materials = [] \<rparr>) = None"
  by (simp add: smooth_defs scenario_cloud_def scenario_target_def identity_matrix_def
        demo_host_def Let_def)

subsection \<open>Coordinates through vertex positions\<close>

text \<open>
  Claim C10, as amended. A vertex position is stored in single precision, so the
  round trip is exact for the coordinates up to 16777216. For a mask whose
  dimensions are at most 16777217, every coordinate extracted from it, turned into
  a vertex position and rounded back, is the coordinate again, and it passes the
  bounds check and the occupancy re-check of the sampler. A value volume of the
  mask's shape contains every extracted coordinate. When the value volume
  contains them, the host has created the attribute and the range of a colour
  channel holds 0 and 1, the cloud built from the
  mask has one vertex per extracted coordinate, every attribute is
  (val, val, val, 1) with val the scalar of the value volume at the coordinate as a
  colour channel stores it, and the sentinel is written nowhere.
\<close>

theorem extracted_points_sampled:
  assumes "shape msk = [d0, d1, d2]"
    and "d0 \<le> 16777217" and "d1 \<le> 16777217" and "d2 \<le> 16777217"
  shows "(\<forall>c \<in> set (np_argwhere_gt0 msk).
            rounded (vert_of c) = (int (c ! 0), int (c ! 1), int (c ! 2))
          \<and> inside (d0, d1, d2) (rounded (vert_of c))
          \<and> 0 < cell_at msk (rounded (vert_of c)))
       \<and> (shape lac = shape msk \<longrightarrow> (\<forall>c \<in> set (np_argwhere_gt0 msk). in_bounds lac c))
       \<and> ((\<forall>c \<in> set (np_argwhere_gt0 msk). in_bounds lac c) \<and> attribute_new h a = Some name
            \<and> fst (color_range h) \<le> 0 \<and> 1 \<le> snd (color_range h) \<longrightarrow>
          build_cloud h a lac msk (d0, d1, d2) =
            (\<lparr> vertices = map vert_of (np_argwhere_gt0 msk),
               color_attributes =
                 [(name, map (\<lambda>c. (channel32 h (py_float (cell lac c)),
                                    channel32 h (py_float (cell lac c)),
                                    channel32 h (py_float (cell lac c)), 1))
                           (np_argwhere_gt0 msk))],
               mesh_materials = [] \<rparr>, None)
          \<and> ((0, 0, 0, 0) :: color) \<notin>
              set (map (\<lambda>c. (channel32 h (py_float (cell lac c)),
                             channel32 h (py_float (cell lac c)),
                             channel32 h (py_float (cell lac c)), 1))
                     (np_argwhere_gt0 msk)))"
proof (intro conjI ballI impI)
  fix c assume c: "c \<in> set (np_argwhere_gt0 msk)"
  show "rounded (vert_of c) = (int (c ! 0), int (c ! 1), int (c ! 2))"
    by (rule extracted_rounded[OF assms c])
  show "inside (d0, d1, d2) (rounded (vert_of c))"
    using extracted_vertex[OF assms c] by blast
  show "0 < cell_at msk (rounded (vert_of c))"
    using extracted_vertex[OF assms c] by blast
next
  fix c assume "shape lac = shape msk" and "c \<in> set (np_argwhere_gt0 msk)"
  then show "in_bounds lac c" using same_shape_covered[OF assms(1), of lac] by blast
next
  assume a: "(\<forall>c \<in> set (np_argwhere_gt0 msk). in_bounds lac c) \<and> attribute_new h a = Some name
            \<and> fst (color_range h) \<le> 0 \<and> 1 \<le> snd (color_range h)"
  then have c1: "channel32 h 1 = 1" by (intro channel32_1) simp_all
  have "sampled_color h lac = (\<lambda>c. (channel32 h (py_float (cell lac c)),
                                    channel32 h (py_float (cell lac c)),
                                    channel32 h (py_float (cell lac c)), 1))"
    by (rule ext) (simp add: sampled_color_def c1)
  with build_cloud_covered[OF assms, of lac h a name] a
  show "build_cloud h a lac msk (d0, d1, d2) =
            (\<lparr> vertices = map vert_of (np_argwhere_gt0 msk),
               color_attributes =
                 [(name, map (\<lambda>c. (channel32 h (py_float (cell lac c)),
                                    channel32 h (py_float (cell lac c)),
                                    channel32 h (py_float (cell lac c)), 1))
                           (np_argwhere_gt0 msk))],
               mesh_materials = [] \<rparr>, None)"
    by simp
next
  show "((0, 0, 0, 0) :: color) \<notin>
              set (map (\<lambda>c. (channel32 h (py_float (cell lac c)),
                             channel32 h (py_float (cell lac c)),
                             channel32 h (py_float (cell lac c)), 1))
                     (np_argwhere_gt0 msk))"
    by auto
qed

theorem extracted_points_sampled_witness:
  "shape scenario_mask = [2, 2, 2] \<and> shape scenario_values = shape scenario_mask
   \<and> np_argwhere_gt0 scenario_mask = [[0, 0, 0], [1, 1, 1]]
   \<and> attribute_new demo_host ''lac_ves'' = Some ''lac_ves''
   \<and> fst (color_range demo_host) \<le> 0 \<and> 1 \<le> snd (color_range demo_host)
   \<and> rounded (vert_of [1, 1, 1]) = (1, 1, 1)
   \<and> build_cloud demo_host ''lac_ves'' scenario_values scenario_mask (2, 2, 2) =
        (\<lparr> vertices = [(0, 0, 0), (1, 1, 1)],
           color_attributes = [(''lac_ves'', [(5, 5, 5, 1), (5, 5, 5, 1)])],
           mesh_materials = [] \<rparr>, None)"
proof -
  have m: "shape scenario_mask = [2, 2, 2]" and l: "shape scenario_values = shape scenario_mask"
    by (simp_all add: scenario_mask_def scenario_values_def)
  have b: "(2 :: nat) \<le> 16777217" by simp
  have new: "attribute_new demo_host ''lac_ves'' = Some ''lac_ves''"
    by (simp add: demo_host_def)
  have r: "fst (color_range demo_host) \<le> 0" "1 \<le> snd (color_range demo_host)"
    by (simp_all add: demo_host_def flt_max_def)
  note t = extracted_points_sampled[OF m b b b, of scenario_values demo_host "''lac_ves''" "''lac_ves''"]
  from t l have cover: "\<forall>c \<in> set (np_argwhere_gt0 scenario_mask). in_bounds scenario_values c"
    by blast
  have ch: "channel32 demo_host (py_float 5) = 5"
    by (simp add: channel32_def demo_host_def flt_max_def float_evals)
  have v: "map vert_of [[0, 0, 0], [1, 1, 1]] = [(0, 0, 0), (1, 1, 1)]"
    by (simp add: co32_def float_evals)
  have rt: "rounded (vert_of [1, 1, 1]) = (1, 1, 1)"
    using t by (simp add: demo_argwhere)
  from t cover new r
  have "build_cloud demo_host ''lac_ves'' scenario_values scenario_mask (2, 2, 2) =
            (\<lparr> vertices = map vert_of (np_argwhere_gt0 scenario_mask),
               color_attributes =
                 [(''lac_ves'', map (\<lambda>c. (channel32 demo_host (py_float (cell scenario_values c)),
                                    channel32 demo_host (py_float (cell scenario_values c)),
                                    channel32 demo_host (py_float (cell scenario_values c)), 1))
                           (np_argwhere_gt0 scenario_mask))],
               mesh_materials = [] \<rparr>, None)"
    by blast
  then have "build_cloud demo_host ''lac_ves'' scenario_values scenario_mask (2, 2, 2) =
        (\<lparr> vertices = [(0, 0, 0), (1, 1, 1)],
           color_attributes = [(''lac_ves'', [(5, 5, 5, 1), (5, 5, 5, 1)])],
           mesh_materials = [] \<rparr>, None)"
    unfolding demo_argwhere v by (simp add: scenario_values_def ch)
  then show ?thesis using m l new r rt demo_argwhere by simp
qed

theorem extracted_points_sampled_counterexample:
  "map_sum id (\<lambda>(lac, msk). (shape lac, shape msk, np_argwhere_gt0 msk))
       (load_volumes demo_host ''lac_a.npy'' ''mask_a.npy'')
     = Inr ([16777218, 1, 1], [16777218, 1, 1], [[16777217, 0, 0]])
   \<and> rounded (vert_of [16777217, 0, 0]) = (16777216, 0, 0)
   \<and> fst (generate_execute demo_host
            (demo_settings \<lparr> lac_path := ''lac_a.npy'', mask_path := ''mask_a.npy'' \<rparr>) empty_scene)
       = FINISHED
   \<and> map_option (\<lambda>ob. (vertices (obj_data ob), color_attributes (obj_data ob)))
        (created_cloud demo_host empty_scene
           (snd (generate_execute demo_host
                   (demo_settings \<lparr> lac_path := ''lac_a.npy'', mask_path := ''mask_a.npy'' \<rparr>)
                   empty_scene)))
       = Some ([(16777216, 0, 0)], [(''lac_ves'', [(0, 0, 0, 0)])])"
proof -
  have co0: "co32 0 = 0" using co32_exact[of 0] by simp
  have "rounded (vert_of [16777217, 0, 0]) = (16777216, 0, 0)"
    by (simp add: co32_16777217 co0 py_round_def)
  moreover have "map_sum id (\<lambda>(lac, msk). (shape lac, shape msk, np_argwhere_gt0 msk))
       (load_volumes demo_host ''lac_a.npy'' ''mask_a.npy'')
     = Inr ([16777218, 1, 1], [16777218, 1, 1], [[16777217, 0, 0]])"
    by (simp only: load_a map_sum.simps prod.case argwhere_a ndarray.select_convs)
  ultimately show ?thesis
    unfolding demo_generate_a
    by (simp add: created_cloud_def demo_host_def empty_scene_def)
qed

section \<open>Further properties\<close>

text \<open>
  The first scenario of the specification: on the 2x2x2 mask occupied at (0,0,0)
  and (1,1,1) with the value 5.0 everywhere, Generate finishes with a cloud of the
  two points (0,0,0) and (1,1,1), both with the attribute (5, 5, 5, 1).
\<close>

theorem scenario_generate_two_points:
  "generate_execute demo_host demo_settings empty_scene =
     (FINISHED,
      \<lparr> objects =
          [(''Cloud'',
            \<lparr> obj_data =
                \<lparr> vertices = [(0, 0, 0), (1, 1, 1)],
                  color_attributes = [(''lac_ves'', [(5, 5, 5, 1), (5, 5, 5, 1)])],
                  mesh_materials = [] \<rparr>,
              modifiers = [\<lparr> mod_name = ''VoxelGeoNodes'', mod_type = ''NODES'',
                              mod_node_group = ''Voxel_Instances'' \<rparr>],
              matrix_world = ((1, 0, 0, 0), (0, 1, 0, 0), (0, 0, 1, 0)) \<rparr>)],
        collections = [(''Voxel Gen Output'', [''Cloud''])],
        scene_children = [''Voxel Gen Output''],
        node_groups = [''Voxel_Instances''],
        materials = [(''Voxel_Map'', [''lac_ves''])],
        active_object = None \<rparr>)"
  by (rule demo_generate)

text \<open>
  A mask without a positive cell is not an error: when the host creates the
  attribute, Generate finishes and the cloud it creates has no vertex and an
  attribute without values.
\<close>

theorem generate_empty_mask:
  assumes "load_volumes h lp mp = Inr (lac, msk)" and "\<forall>i. \<not> 0 < cell msk i"
    and "attribute_new h a = Some name"
  shows "fst (generate_try h lp mp a sc) = FINISHED
       \<and> map_option (\<lambda>ob. (vertices (obj_data ob), color_attributes (obj_data ob)))
            (created_cloud h sc (snd (generate_try h lp mp a sc))) = Some ([], [(name, [])])"
proof -
  have e: "np_argwhere_gt0 msk = []" using assms(2) by (simp add: np_argwhere_gt0_def)
  obtain d0 d1 d2 l0 l1 l2 where m: "shape msk = [d0, d1, d2]"
    using load_volumes_shapes[OF assms(1)] by blast
  have bc: "build_cloud h a lac msk (d0, d1, d2) =
          (\<lparr> vertices = [], color_attributes = [(name, [])], mesh_materials = [] \<rparr>, None)"
    using assms(3) e by (simp add: build_cloud_def)
  have f: "fst (generate_try h lp mp a sc) = FINISHED"
    unfolding generate_try_fst[OF assms(1) m] bc by simp
  show ?thesis
    using f generate_try_created[OF assms(1) m f] bc by simp
qed

theorem generate_empty_mask_witness:
  "fst (generate_try (demo_host \<lparr> np_load := (\<lambda>p. Inr \<lparr> shape = [2, 2, 2], cell = (\<lambda>i. 0) \<rparr>) \<rparr>)
          ''lac.npy'' ''mask.npy'' ''lac_ves'' empty_scene) = FINISHED
   \<and> map_option (\<lambda>ob. (vertices (obj_data ob), color_attributes (obj_data ob)))
        (created_cloud (demo_host \<lparr> np_load := (\<lambda>p. Inr \<lparr> shape = [2, 2, 2], cell = (\<lambda>i. 0) \<rparr>) \<rparr>)
           empty_scene
           (snd (generate_try (demo_host \<lparr> np_load := (\<lambda>p. Inr \<lparr> shape = [2, 2, 2], cell = (\<lambda>i. 0) \<rparr>) \<rparr>)
                   ''lac.npy'' ''mask.npy'' ''lac_ves'' empty_scene)))
       = Some ([], [(''lac_ves'', [])])"
proof -
  let ?z = "\<lparr> shape = [2, 2, 2], cell = (\<lambda>i. 0) \<rparr> :: ndarray"
  let ?h = "demo_host \<lparr> np_load := (\<lambda>p. Inr ?z) \<rparr>"
  have lv: "load_volumes ?h ''lac.npy'' ''mask.npy'' = Inr (?z, ?z)"
    by (simp add: load_volumes_def np_transpose_210_def)
  have z: "\<forall>i. \<not> 0 < cell ?z i" by simp
  have new: "attribute_new ?h ''lac_ves'' = Some ''lac_ves''" by (simp add: demo_host_def)
  from generate_empty_mask[OF lv z new, of empty_scene]
  show ?thesis .
qed

text \<open>
  A read outside the value volume ends the sampling loop, and the operator is
  cancelled, after the object was created and linked: the cloud stays in the
  scene, with the colours written so far and the creation colour for the rest.
\<close>

theorem generate_failed_read_leaves_cloud:
  "generate_execute demo_host (demo_settings \<lparr> lac_path := ''lac1.npy'' \<rparr>) empty_scene =
     (CANCELLED (GenerationFailed IndexError),
      \<lparr> objects =
          [(''Cloud'',
            \<lparr> obj_data =
                \<lparr> vertices = [(0, 0, 0), (1, 1, 1)],
                  color_attributes = [(''lac_ves'', [(5, 5, 5, 1), (1, 1, 1, 1)])],
                  mesh_materials = [] \<rparr>,
              modifiers = [],
              matrix_world = ((1, 0, 0, 0), (0, 1, 0, 0), (0, 0, 1, 0)) \<rparr>)],
        collections = [(''Voxel Gen Output'', [''Cloud''])],
        scene_children = [''Voxel Gen Output''],
        node_groups = [],
        materials = [],
        active_object = None \<rparr>)"
  by (rule demo_generate_1x1x1)

text \<open>Without an object named "Cloud", Smooth is cancelled and the scene is unchanged.\<close>

theorem smooth_without_cloud:
  assumes "map_of (objects sc) ''Cloud'' = None"
  shows "smooth_execute h s sc = (CANCELLED NoCloudObject, sc)"
  using assms by (simp add: smooth_execute_def)

theorem smooth_without_cloud_witness:
  "map_of (objects empty_scene) ''Cloud'' = None
   \<and> smooth_execute demo_host demo_settings empty_scene = (CANCELLED NoCloudObject, empty_scene)"
proof -
  have a: "map_of (objects empty_scene) ''Cloud'' = None" by (simp add: empty_scene_def)
  from smooth_without_cloud[OF a, of demo_host demo_settings] a show ?thesis by simp
qed

text \<open>
  A value file that does not hold a three-dimensional array makes the
  transposition raise \<open>ValueError\<close>: Generate is cancelled and the scene is unchanged.
\<close>

theorem generate_rejects_other_ranks:
  assumes "valid_path h (lac_path s)" and "valid_path h (mask_path s)"
    and "strip (attribute_name s) \<noteq> []"
    and "np_load h (abspath h (lac_path s)) = Inr lac0" and "length (shape lac0) \<noteq> 3"
  shows "generate_execute h s sc = (CANCELLED (GenerationFailed ValueError), sc)"
  using assms
  by (simp add: generate_execute_def generate_try_def load_volumes_def np_transpose_210_def
        valid_path_def Let_def)

theorem generate_rejects_other_ranks_witness:
  "generate_execute (demo_host \<lparr> np_load := (\<lambda>p. Inr \<lparr> shape = [2, 2], cell = (\<lambda>i. 0) \<rparr>) \<rparr>)
     demo_settings empty_scene = (CANCELLED (GenerationFailed ValueError), empty_scene)"
proof -
  let ?h = "demo_host \<lparr> np_load := (\<lambda>p. Inr \<lparr> shape = [2, 2], cell = (\<lambda>i. 0) \<rparr>) \<rparr>"
  have "valid_path ?h (lac_path demo_settings)" "valid_path ?h (mask_path demo_settings)"
    "strip (attribute_name demo_settings) \<noteq> []"
    "np_load ?h (abspath ?h (lac_path demo_settings)) = Inr \<lparr> shape = [2, 2], cell = (\<lambda>i. 0) \<rparr>"
    "length (shape \<lparr> shape = [2, 2], cell = (\<lambda>i. 0 :: real) \<rparr>) \<noteq> 3"
    by (simp_all add: valid_path_def demo_defs strip_lac_ves)
  from generate_rejects_other_ranks[OF this, of empty_scene] show ?thesis .
qed

text \<open>
  A vertex outside the bounds is skipped by the sampling loop: the bounds check of
  line 117 has no \<open>else\<close>, so nothing is written and the vertex keeps the colour
  the attribute was created with. Generate gets there with a mask whose dimension
  is larger than 16777217: the stored mask of shape (1, 1, 16777220), occupied at
  its last cell, gives the coordinate (16777219, 0, 0), whose vertex is stored as
  (16777220, 0, 0), outside the bounds; Generate finishes, and the attribute of
  the point is neither the sampled value nor the sentinel.
\<close>

theorem generate_skips_vertex_outside_bounds:
  "map_sum id (\<lambda>(lac, msk). (shape msk, np_argwhere_gt0 msk))
       (load_volumes demo_host ''lac_b.npy'' ''mask_b.npy'')
     = Inr ([16777220, 1, 1], [[16777219, 0, 0]])
   \<and> rounded (vert_of [16777219, 0, 0]) = (16777220, 0, 0)
   \<and> \<not> inside (16777220, 1, 1) (16777220, 0, 0)
   \<and> default_color demo_host = (1, 1, 1, 1)
   \<and> fst (generate_execute demo_host
            (demo_settings \<lparr> lac_path := ''lac_b.npy'', mask_path := ''mask_b.npy'' \<rparr>) empty_scene)
       = FINISHED
   \<and> map_option (\<lambda>ob. (vertices (obj_data ob), color_attributes (obj_data ob)))
        (created_cloud demo_host empty_scene
           (snd (generate_execute demo_host
                   (demo_settings \<lparr> lac_path := ''lac_b.npy'', mask_path := ''mask_b.npy'' \<rparr>)
                   empty_scene)))
       = Some ([(16777220, 0, 0)], [(''lac_ves'', [(1, 1, 1, 1)])])"
proof -
  have co0: "co32 0 = 0" using co32_exact[of 0] by simp
  have "rounded (vert_of [16777219, 0, 0]) = (16777220, 0, 0)"
    by (simp add: co32_16777219 co0 py_round_def)
  moreover have "map_sum id (\<lambda>(lac, msk). (shape msk, np_argwhere_gt0 msk))
       (load_volumes demo_host ''lac_b.npy'' ''mask_b.npy'')
     = Inr ([16777220, 1, 1], [[16777219, 0, 0]])"
    by (simp only: load_b map_sum.simps prod.case argwhere_b ndarray.select_convs)
  ultimately show ?thesis
    unfolding demo_generate_b
    by (simp add: created_cloud_def demo_host_def empty_scene_def)
qed

text \<open>
  When the host creates no colour attribute for the name (Blender returns \<open>None\<close>
  for a name that is too long), line 113 raises \<open>AttributeError\<close> inside the \<open>try\<close>:
  Generate is cancelled with "Generation failed", whatever the two volumes hold.
\<close>

theorem generate_without_attribute:
  assumes "load_volumes h lp mp = Inr (lac, msk)" and "attribute_new h a = None"
  shows "fst (generate_try h lp mp a sc) = CANCELLED (GenerationFailed AttributeError)"
proof -
  obtain d0 d1 d2 l0 l1 l2 where m: "shape msk = [d0, d1, d2]"
    using load_volumes_shapes[OF assms(1)] by blast
  show ?thesis
    unfolding generate_try_fst[OF assms(1) m] build_cloud_no_attribute[OF assms(2)] by simp
qed

theorem generate_without_attribute_witness:
  "length (replicate 68 CHR ''a'') = 68
   \<and> attribute_new demo_host (replicate 68 CHR ''a'') = None
   \<and> fst (generate_try demo_host ''lac.npy'' ''mask.npy'' (replicate 68 CHR ''a'') empty_scene)
       = CANCELLED (GenerationFailed AttributeError)"
proof -
  let ?msk = "\<lparr> shape = [2, 2, 2],
            cell = (\<lambda>i. if [i ! 2, i ! 1, i ! 0] = [0, 0, 0] \<or> [i ! 2, i ! 1, i ! 0] = [1, 1, 1]
                        then 1 else (0 :: real)) \<rparr> :: ndarray"
  let ?lac = "\<lparr> shape = [2, 2, 2], cell = (\<lambda>i. 5) \<rparr> :: ndarray"
  have lv: "load_volumes demo_host ''lac.npy'' ''mask.npy'' = Inr (?lac, ?msk)"
    by (simp add: load_volumes_def demo_defs np_transpose_210_def)
  have n: "attribute_new demo_host (replicate 68 CHR ''a'') = None"
    by (simp add: demo_host_def)
  from generate_without_attribute[OF lv n, of empty_scene] n show ?thesis by simp
qed

text \<open>
  Smooth has no \<open>try\<close>. When the host cannot apply the instancing modifier of the
  copy (line 251), the exception leaves the operator, after the earlier "Smooth"
  object was removed and the copy was linked.
\<close>

theorem smooth_raises_when_modifier_fails:
  assumes "map_of (objects sc) ''Cloud'' = Some cloud_obj"
    and "\<exists>m \<in> set (modifiers cloud_obj). mod_type m = ''NODES'' \<and> mod_name m = ''VoxelGeoNodes''"
    and "apply_instances h (obj_data cloud_obj) = Inl e"
  shows "fst (smooth_execute h s sc) = RAISED e
       \<and> map_of (objects (snd (smooth_execute h s sc))) ''Smooth'' = Some cloud_obj"
  using assms
  by (simp add: smooth_execute_def make_smooth_object_def Let_def map_of_update_same)

theorem smooth_raises_when_modifier_fails_witness:
  "fst (smooth_execute (demo_host \<lparr> apply_instances := (\<lambda>me. Inl RuntimeError) \<rparr>) demo_settings
          (snd (generate_execute demo_host demo_settings empty_scene))) = RAISED RuntimeError"
proof -
  let ?h = "demo_host \<lparr> apply_instances := (\<lambda>me. Inl RuntimeError) \<rparr>"
  let ?sc = "snd (generate_execute demo_host demo_settings empty_scene)"
  let ?cloud = "\<lparr> obj_data =
                \<lparr> vertices = [(0, 0, 0), (1, 1, 1)],
                  color_attributes = [(''lac_ves'', [(5, 5, 5, 1), (5, 5, 5, 1)])],
                  mesh_materials = [] \<rparr>,
              modifiers = [\<lparr> mod_name = ''VoxelGeoNodes'', mod_type = ''NODES'',
                              mod_node_group = ''Voxel_Instances'' \<rparr>],
              matrix_world = ((1, 0, 0, 0), (0, 1, 0, 0), (0, 0, 1, 0)) \<rparr> :: object"
  have a: "map_of (objects ?sc) ''Cloud'' = Some ?cloud"
    unfolding demo_generate by simp
  have b: "\<exists>m \<in> set (modifiers ?cloud). mod_type m = ''NODES'' \<and> mod_name m = ''VoxelGeoNodes''"
    by simp
  have c: "apply_instances ?h (obj_data ?cloud) = Inl RuntimeError" by simp
  from smooth_raises_when_modifier_fails[OF a b c, of demo_settings] show ?thesis by simp
qed

end
